theory Spec2Isabelle
  imports Main "HOL-Library.Word"
begin

unbundle bit_operations_syntax

section \<open>The program model of \<open>src/program.ts\<close>\<close>

text \<open>
  A shallow embedding of the element graph of \<open>program.ts\<close>: the initializer
  (\<open>initializeClass\<close> and what it calls, the export statements and the queues drained at
  the end of \<open>initialize\<close>) and the resolver (\<open>resolveType\<close>, \<open>resolveSignature\<close>,
  \<open>resolveTypeArguments\<close>, \<open>ClassPrototype.resolve\<close>, \<open>FunctionPrototype.resolve\<close>).

  Elements are objects with identity in the source. Here they live in an arena
  (\<open>elements\<close>), addressed by handles; \<open>new\<close> allocates the next handle and referential
  equality is equality of handles. JavaScript \<open>Map\<close>s are association lists that keep
  insertion order, since the source iterates some of them. An \<open>assert\<close> that fails and a
  \<open>throw\<close> end the computation with an \<open>Error\<close> value.
\<close>

subsection \<open>Enumerations\<close>

type_synonym handle = nat

text \<open>\<open>enum OperatorKind\<close> (lines 118-137).\<close>

datatype OperatorKind =
    OperatorKind_INVALID
  | OperatorKind_INDEXED_GET
  | OperatorKind_INDEXED_SET
  | OperatorKind_ADD
  | OperatorKind_SUB
  | OperatorKind_MUL
  | OperatorKind_DIV
  | OperatorKind_REM
  | OperatorKind_POW
  | OperatorKind_AND
  | OperatorKind_OR
  | OperatorKind_XOR
  | OperatorKind_EQ
  | OperatorKind_NE
  | OperatorKind_GT
  | OperatorKind_GE
  | OperatorKind_LT
  | OperatorKind_LE

text \<open>\<open>operatorKindFromString\<close> (lines 139-160): a \<open>switch\<close> over the string.\<close>

definition operatorKindFromString :: "string \<Rightarrow> OperatorKind" where
  "operatorKindFromString str =
    (if str = ''[]'' then OperatorKind_INDEXED_GET
     else if str = ''[]='' then OperatorKind_INDEXED_SET
     else if str = ''+'' then OperatorKind_ADD
     else if str = ''-'' then OperatorKind_SUB
     else if str = ''*'' then OperatorKind_MUL
     else if str = ''/'' then OperatorKind_DIV
     else if str = ''%'' then OperatorKind_REM
     else if str = ''**'' then OperatorKind_POW
     else if str = ''&'' then OperatorKind_AND
     else if str = ''|'' then OperatorKind_OR
     else if str = ''^'' then OperatorKind_XOR
     else if str = ''=='' then OperatorKind_EQ
     else if str = ''!='' then OperatorKind_NE
     else if str = ''>'' then OperatorKind_GT
     else if str = ''>='' then OperatorKind_GE
     else if str = ''<'' then OperatorKind_LT
     else if str = ''<='' then OperatorKind_LE
     else OperatorKind_INVALID)"

text \<open>\<open>enum ElementKind\<close> (lines 2171-2202).\<close>

datatype ElementKind =
    ElementKind_GLOBAL
  | ElementKind_LOCAL
  | ElementKind_ENUM
  | ElementKind_ENUMVALUE
  | ElementKind_FUNCTION_PROTOTYPE
  | ElementKind_FUNCTION
  | ElementKind_FUNCTION_TARGET
  | ElementKind_CLASS_PROTOTYPE
  | ElementKind_CLASS
  | ElementKind_INTERFACE_PROTOTYPE
  | ElementKind_INTERFACE
  | ElementKind_FIELD_PROTOTYPE
  | ElementKind_FIELD
  | ElementKind_PROPERTY
  | ElementKind_NAMESPACE

text \<open>
  \<open>enum CommonFlags\<close> (lines 2205-2269) and \<open>enum DecoratorFlags\<close> (lines 2271-2282):
  bit sets, here 32-bit words; \<open>1 << n\<close> is \<open>push_bit n 1\<close>.
\<close>

type_synonym CommonFlags = "32 word"
type_synonym DecoratorFlags = "32 word"

definition CommonFlags_NONE :: CommonFlags where "CommonFlags_NONE = 0"
definition CommonFlags_EXPORT :: CommonFlags where "CommonFlags_EXPORT = push_bit 1 1"
definition CommonFlags_DECLARE :: CommonFlags where "CommonFlags_DECLARE = push_bit 2 1"
definition CommonFlags_STATIC :: CommonFlags where "CommonFlags_STATIC = push_bit 5 1"
definition CommonFlags_GET :: CommonFlags where "CommonFlags_GET = push_bit 11 1"
definition CommonFlags_SET :: CommonFlags where "CommonFlags_SET = push_bit 12 1"
definition CommonFlags_AMBIENT :: CommonFlags where "CommonFlags_AMBIENT = push_bit 13 1"
definition CommonFlags_GENERIC :: CommonFlags where "CommonFlags_GENERIC = push_bit 14 1"
definition CommonFlags_INSTANCE :: CommonFlags where "CommonFlags_INSTANCE = push_bit 16 1"
definition CommonFlags_CONSTRUCTOR :: CommonFlags where "CommonFlags_CONSTRUCTOR = push_bit 17 1"
definition CommonFlags_MODULE_EXPORT :: CommonFlags where "CommonFlags_MODULE_EXPORT = push_bit 19 1"
definition CommonFlags_BUILTIN :: CommonFlags where "CommonFlags_BUILTIN = push_bit 21 1"

definition DecoratorFlags_NONE :: DecoratorFlags where "DecoratorFlags_NONE = 0"
definition DecoratorFlags_GLOBAL :: DecoratorFlags where "DecoratorFlags_GLOBAL = push_bit 0 1"
definition DecoratorFlags_UNMANAGED :: DecoratorFlags where "DecoratorFlags_UNMANAGED = push_bit 2 1"
definition DecoratorFlags_SEALED :: DecoratorFlags where "DecoratorFlags_SEALED = push_bit 3 1"
definition DecoratorFlags_INLINE :: DecoratorFlags where "DecoratorFlags_INLINE = push_bit 4 1"

text \<open>
  Modelled from the spec: \<open>enum DecoratorKind\<close> and \<open>stringToDecoratorKind\<close> are
  declared in \<open>./ast\<close>, which is not part of the sources at hand. The spec names the
  decorators \<open>global\<close>, \<open>unmanaged\<close>, \<open>sealed\<close>, \<open>inline\<close> and \<open>operator\<close>; any other
  name is a custom decorator.
\<close>

datatype DecoratorKind =
    DecoratorKind_CUSTOM
  | DecoratorKind_GLOBAL
  | DecoratorKind_OPERATOR
  | DecoratorKind_UNMANAGED
  | DecoratorKind_SEALED
  | DecoratorKind_INLINE

definition stringToDecoratorKind :: "string \<Rightarrow> DecoratorKind" where
  "stringToDecoratorKind str =
    (if str = ''global'' then DecoratorKind_GLOBAL
     else if str = ''operator'' then DecoratorKind_OPERATOR
     else if str = ''unmanaged'' then DecoratorKind_UNMANAGED
     else if str = ''sealed'' then DecoratorKind_SEALED
     else if str = ''inline'' then DecoratorKind_INLINE
     else DecoratorKind_CUSTOM)"

text \<open>\<open>decoratorKindToFlag\<close> (lines 2284-2292).\<close>

fun decoratorKindToFlag :: "DecoratorKind \<Rightarrow> DecoratorFlags" where
  "decoratorKindToFlag DecoratorKind_GLOBAL = DecoratorFlags_GLOBAL"
| "decoratorKindToFlag DecoratorKind_UNMANAGED = DecoratorFlags_UNMANAGED"
| "decoratorKindToFlag DecoratorKind_SEALED = DecoratorFlags_SEALED"
| "decoratorKindToFlag DecoratorKind_INLINE = DecoratorFlags_INLINE"
| "decoratorKindToFlag _ = DecoratorFlags_NONE"

subsection \<open>The syntax tree the core consumes\<close>

text \<open>
  Modelled from the spec: the node classes are declared in \<open>./ast\<close>, which is not part
  of the sources at hand. Each node keeps the fields that \<open>program.ts\<close> reads; source
  ranges are kept only as the \<open>Source\<close> they belong to.
\<close>

record Source =
  internalPath :: string
  isEntry :: bool
  isLibrary :: bool

datatype NodeKind =
    NodeKind_SOURCE
  | NodeKind_VARIABLE
  | NodeKind_IDENTIFIER
  | NodeKind_CONSTRUCTOR
  | NodeKind_NAMESPACEDECLARATION
  | NodeKind_CALL
  | NodeKind_OTHER

datatype ParameterKind =
    ParameterKind_DEFAULT
  | ParameterKind_OPTIONAL
  | ParameterKind_REST

text \<open>
  \<open>TypeNode name typeArguments source\<close>, \<open>SignatureNode parameterTypes returnType
  explicitThisType\<close> and \<open>ParameterNode name type parameterKind\<close>.
\<close>

datatype CommonTypeNode =
    TypeNode string "CommonTypeNode list option" Source
  | SignatureTypeNode SignatureNode
and SignatureNode =
    SignatureNode "ParameterNode list" "CommonTypeNode option" "CommonTypeNode option"
and ParameterNode =
    ParameterNode string "CommonTypeNode option" ParameterKind

datatype LiteralKind =
    LiteralKind_FLOAT
  | LiteralKind_INTEGER
  | LiteralKind_STRING
  | LiteralKind_REGEXP
  | LiteralKind_ARRAY
  | LiteralKind_OBJECT

record IdentifierExpression =
  id_text :: string
  id_source :: Source

text \<open>An expression as a decorator carries it: its name and its arguments.\<close>

datatype Expression =
    Identifier IdentifierExpression
  | Literal LiteralKind string
  | OtherExpression

record DecoratorNode =
  dn_decoratorKind :: DecoratorKind
  dn_name :: Expression
  dn_arguments :: "Expression list option"

record FieldDeclaration =
  fd_name :: string
  fd_fileLevelInternalName :: string
  fd_type :: "CommonTypeNode option"
  fd_flags :: CommonFlags

text \<open>A \<open>MethodDeclaration\<close> is a \<open>FunctionDeclaration\<close>; \<open>fn_nameKind\<close> is \<open>name.kind\<close>.\<close>

record FunctionDeclaration =
  fn_name :: string
  fn_nameKind :: NodeKind
  fn_fileLevelInternalName :: string
  fn_typeParameters :: "string list option"
  fn_signature :: SignatureNode
  fn_flags :: CommonFlags
  fn_decorators :: "DecoratorNode list option"

datatype ClassMember =
    FieldDeclarationMember FieldDeclaration
  | MethodDeclarationMember FunctionDeclaration
  | OtherMember

text \<open>
  \<open>cd_source\<close> is \<open>declaration.range.source\<close>; \<open>cd_parentKinds\<close> lists the kinds of
  \<open>declaration.parent\<close>, of its parent and so on (empty when there is no parent).
\<close>

record ClassDeclaration =
  cd_name :: string
  cd_fileLevelInternalName :: string
  cd_typeParameters :: "string list"
  cd_extendsType :: "CommonTypeNode option"
  cd_implementsTypes :: "CommonTypeNode list option"
  cd_members :: "ClassMember list"
  cd_flags :: CommonFlags
  cd_decorators :: "DecoratorNode list option"
  cd_source :: Source
  cd_parentKinds :: "NodeKind list"

record ExportMember =
  em_name :: IdentifierExpression
  em_externalName :: IdentifierExpression
  em_source :: Source
  em_statementPath :: string

record ExportStatement =
  es_members :: "ExportMember list"
  es_internalPath :: "string option"

subsection \<open>Types\<close>

text \<open>
  Modelled from the spec: \<open>Type\<close>, \<open>Signature\<close> and \<open>typesToString\<close> are declared in
  \<open>./types\<close>, which is not part of the sources at hand. The spec identifies a type by
  its kind, its width in bits and its target (a class or a signature); the byte size is
  the width rounded up to whole bytes. Function types are pointer sized and carry their
  signature, class types are pointer sized and carry their class. \<open>typesToString\<close>
  joins the canonical strings of the types with commas; a class type prints as its
  class does (\<open>Class.toString\<close>, line 3430, returns the simple name).
\<close>

datatype TypeKind =
    TypeKind_I8 | TypeKind_I16 | TypeKind_I32 | TypeKind_I64 | TypeKind_ISIZE
  | TypeKind_U8 | TypeKind_U16 | TypeKind_U32 | TypeKind_U64 | TypeKind_USIZE
  | TypeKind_BOOL | TypeKind_F32 | TypeKind_F64 | TypeKind_VOID

datatype Type =
    Type (Type_kind: TypeKind) (Type_size: nat) (classReference: "handle option")
      (signatureReference: "Signature option")
and Signature =
    Signature (parameterTypes: "Type list") (parameterNames: "string list")
      (requiredParameters: nat) (hasRest: bool) (returnType: Type) (thisType: "Type option")

definition Type_i8 :: Type where "Type_i8 = Type TypeKind_I8 8 None None"
definition Type_i16 :: Type where "Type_i16 = Type TypeKind_I16 16 None None"
definition Type_i32 :: Type where "Type_i32 = Type TypeKind_I32 32 None None"
definition Type_i64 :: Type where "Type_i64 = Type TypeKind_I64 64 None None"
definition Type_isize32 :: Type where "Type_isize32 = Type TypeKind_ISIZE 32 None None"
definition Type_isize64 :: Type where "Type_isize64 = Type TypeKind_ISIZE 64 None None"
definition Type_u8 :: Type where "Type_u8 = Type TypeKind_U8 8 None None"
definition Type_u16 :: Type where "Type_u16 = Type TypeKind_U16 16 None None"
definition Type_u32 :: Type where "Type_u32 = Type TypeKind_U32 32 None None"
definition Type_u64 :: Type where "Type_u64 = Type TypeKind_U64 64 None None"
definition Type_usize32 :: Type where "Type_usize32 = Type TypeKind_USIZE 32 None None"
definition Type_usize64 :: Type where "Type_usize64 = Type TypeKind_USIZE 64 None None"
definition Type_bool :: Type where "Type_bool = Type TypeKind_BOOL 1 None None"
definition Type_f32 :: Type where "Type_f32 = Type TypeKind_F32 32 None None"
definition Type_f64 :: Type where "Type_f64 = Type TypeKind_F64 64 None None"
definition Type_void :: Type where "Type_void = Type TypeKind_VOID 0 None None"

definition byteSize :: "Type \<Rightarrow> nat" where
  "byteSize t = (Type_size t + 7) div 8"

definition asClass :: "Type \<Rightarrow> handle \<Rightarrow> Type" where
  "asClass t classType = Type (Type_kind t) (Type_size t) (Some classType) None"

definition asFunction :: "Type \<Rightarrow> Signature \<Rightarrow> Type" where
  "asFunction t signature = Type (Type_kind t) (Type_size t) None (Some signature)"

definition asThis :: "Type \<Rightarrow> Type" where
  "asThis t = t"

fun TypeKind_toString :: "TypeKind \<Rightarrow> string" where
  "TypeKind_toString TypeKind_I8 = ''i8''"
| "TypeKind_toString TypeKind_I16 = ''i16''"
| "TypeKind_toString TypeKind_I32 = ''i32''"
| "TypeKind_toString TypeKind_I64 = ''i64''"
| "TypeKind_toString TypeKind_ISIZE = ''isize''"
| "TypeKind_toString TypeKind_U8 = ''u8''"
| "TypeKind_toString TypeKind_U16 = ''u16''"
| "TypeKind_toString TypeKind_U32 = ''u32''"
| "TypeKind_toString TypeKind_U64 = ''u64''"
| "TypeKind_toString TypeKind_USIZE = ''usize''"
| "TypeKind_toString TypeKind_BOOL = ''bool''"
| "TypeKind_toString TypeKind_F32 = ''f32''"
| "TypeKind_toString TypeKind_F64 = ''f64''"
| "TypeKind_toString TypeKind_VOID = ''void''"

fun join :: "string list \<Rightarrow> string \<Rightarrow> string" where
  "join [] sep = []"
| "join [x] sep = x"
| "join (x # y # ys) sep = x @ sep @ join (y # ys) sep"

subsection \<open>Elements and the program\<close>

text \<open>
  \<open>Map\<close>s: \<open>Map_get\<close>, \<open>Map_has\<close> and \<open>Map_set\<close>. Setting a key that is present
  keeps its place in the iteration order; a new key goes last.
\<close>

type_synonym ('k, 'v) Map = "('k \<times> 'v) list"

definition Map_get :: "('k, 'v) Map \<Rightarrow> 'k \<Rightarrow> 'v option" where
  "Map_get m k = map_of m k"

definition Map_has :: "('k, 'v) Map \<Rightarrow> 'k \<Rightarrow> bool" where
  "Map_has m k = (map_of m k \<noteq> None)"

fun Map_set :: "('k, 'v) Map \<Rightarrow> 'k \<Rightarrow> 'v \<Rightarrow> ('k, 'v) Map" where
  "Map_set [] k v = [(k, v)]"
| "Map_set ((k', v') # m) k v = (if k' = k then (k, v) # m else (k', v') # Map_set m k v)"

definition Map_values :: "('k, 'v) Map \<Rightarrow> 'v list" where
  "Map_values m = map snd m"

text \<open>The classes of lines 2332-3475, each as the fields it adds to \<open>Element\<close>.\<close>

record ClassPrototype =
  cp_declaration :: ClassDeclaration
  cp_instances :: "(string, handle) Map"
  cp_instanceMembers :: "(string, handle) Map option"
  cp_basePrototype :: "handle option"
  cp_constructorPrototype :: "handle option"
  cp_overloadPrototypes :: "(OperatorKind, handle) Map"

record FunctionPrototype =
  fp_declaration :: FunctionDeclaration
  fp_classPrototype :: "handle option"
  fp_instances :: "(string, handle) Map"
  fp_classTypeArguments :: "Type list option"
  fp_operatorKind :: OperatorKind

record Class =
  c_prototype :: handle
  c_typeArguments :: "Type list option"
  c_type :: Type
  c_base :: "handle option"
  c_contextualTypeArguments :: "(string, Type) Map option"
  c_currentMemoryOffset :: "32 word"
  c_constructorInstance :: "handle option"
  c_overloads :: "(OperatorKind, handle) Map option"

record Local =
  l_simpleName :: string
  l_index :: nat
  l_type :: Type

record Function =
  f_prototype :: handle
  f_signature :: Signature
  f_memberOf :: "handle option"
  f_locals :: "(string, Local) Map"
  f_contextualTypeArguments :: "(string, Type) Map option"

record FieldPrototype =
  fpr_declaration :: FieldDeclaration
  fpr_classPrototype :: handle

record Field =
  fi_prototype :: handle
  fi_type :: Type
  fi_declaration :: FieldDeclaration
  fi_memoryOffset :: "32 word"

record Property =
  pr_parent :: handle
  pr_getterPrototype :: "handle option"
  pr_setterPrototype :: "handle option"

record Global =
  g_type :: Type
  g_declaration :: "FieldDeclaration option"

datatype Payload =
    ClassPrototypeData ClassPrototype
  | FunctionPrototypeData FunctionPrototype
  | ClassData Class
  | FunctionData Function
  | FieldPrototypeData FieldPrototype
  | FieldData Field
  | PropertyData Property
  | GlobalData Global
  | NoData

text \<open>\<open>abstract class Element\<close> (lines 2295-2329), with the subclass's own fields.\<close>

record Element =
  kind :: ElementKind
  simpleName :: string
  internalName :: string
  flags :: CommonFlags
  decoratorFlags :: DecoratorFlags
  members :: "(string, handle) Map option"
  namespace :: "handle option"
  payload :: Payload

definition is_flag :: "Element \<Rightarrow> CommonFlags \<Rightarrow> bool" where
  "is_flag e flag = ((flags e AND flag) = flag)"

definition isAny :: "CommonFlags \<Rightarrow> CommonFlags \<Rightarrow> bool" where
  "isAny fs flag = ((fs AND flag) \<noteq> 0)"

definition set_flag :: "Element \<Rightarrow> CommonFlags \<Rightarrow> Element" where
  "set_flag e flag = e\<lparr>flags := flags e OR flag\<rparr>"

definition hasDecorator :: "Element \<Rightarrow> DecoratorFlags \<Rightarrow> bool" where
  "hasDecorator e flag = ((decoratorFlags e AND flag) = flag)"

text \<open>
  The diagnostic codes that the modelled functions emit (\<open>DiagnosticCode\<close> of
  \<open>./diagnostics\<close>), each message with its arguments.
\<close>

datatype DiagnosticCode =
    Duplicate_identifier_0
  | Duplicate_decorator
  | Decorator_0_is_not_valid_here
  | Unmanaged_classes_cannot_implement_interfaces
  | Unmanaged_classes_cannot_extend_managed_classes_and_vice_versa
  | Export_declaration_conflicts_with_exported_declaration_of_0
  | Multiple_constructor_implementations_are_not_allowed
  | Operation_not_supported
  | Duplicate_function_implementation
  | String_literal_expected
  | Expected_0_arguments_but_got_1
  | Expected_0_type_arguments_but_got_1
  | Module_0_has_no_exported_member_1
  | Cannot_find_name_0
  | A_class_may_only_extend_another_class
  | Class_0_is_sealed_and_cannot_be_extended

datatype DiagnosticMessage = DiagnosticMessage DiagnosticCode "string list"

record TypeAlias =
  ta_typeParameters :: "string list option"
  ta_type :: CommonTypeNode

text \<open>
  \<open>class Program\<close> (lines 165-199): the lookup maps, the diagnostics emitted so far, the
  arena of elements and \<open>options.usizeType\<close>.
\<close>

record Program =
  elements :: "Element list"
  diagnostics :: "DiagnosticMessage list"
  usizeType :: Type
  elementsLookup :: "(string, handle) Map"
  typesLookup :: "(string, Type) Map"
  typeAliases :: "(string, TypeAlias) Map"
  fileLevelExports :: "(string, handle) Map"
  moduleLevelExports :: "(string, handle) Map"

definition error :: "DiagnosticCode \<Rightarrow> string list \<Rightarrow> Program \<Rightarrow> Program" where
  "error code args p = p\<lparr>diagnostics := diagnostics p @ [DiagnosticMessage code args]\<rparr>"

definition deref :: "Program \<Rightarrow> handle \<Rightarrow> Element option" where
  "deref p h = (if h < length (elements p) then Some (elements p ! h) else None)"

definition alloc :: "Element \<Rightarrow> Program \<Rightarrow> handle \<times> Program" where
  "alloc e p = (length (elements p), p\<lparr>elements := elements p @ [e]\<rparr>)"

definition update :: "handle \<Rightarrow> (Element \<Rightarrow> Element) \<Rightarrow> Program \<Rightarrow> Program" where
  "update h f p =
    (if h < length (elements p) then p\<lparr>elements := (elements p)[h := f (elements p ! h)]\<rparr>
     else p)"

text \<open>Reading and writing the fields of a subclass through a handle.\<close>

definition classPrototypeOf :: "Program \<Rightarrow> handle \<Rightarrow> ClassPrototype option" where
  "classPrototypeOf p h =
    (case deref p h of
       Some e \<Rightarrow> (case payload e of ClassPrototypeData d \<Rightarrow> Some d | _ \<Rightarrow> None)
     | None \<Rightarrow> None)"

definition functionPrototypeOf :: "Program \<Rightarrow> handle \<Rightarrow> FunctionPrototype option" where
  "functionPrototypeOf p h =
    (case deref p h of
       Some e \<Rightarrow> (case payload e of FunctionPrototypeData d \<Rightarrow> Some d | _ \<Rightarrow> None)
     | None \<Rightarrow> None)"

definition classOf :: "Program \<Rightarrow> handle \<Rightarrow> Class option" where
  "classOf p h =
    (case deref p h of
       Some e \<Rightarrow> (case payload e of ClassData d \<Rightarrow> Some d | _ \<Rightarrow> None)
     | None \<Rightarrow> None)"

definition functionOf :: "Program \<Rightarrow> handle \<Rightarrow> Function option" where
  "functionOf p h =
    (case deref p h of
       Some e \<Rightarrow> (case payload e of FunctionData d \<Rightarrow> Some d | _ \<Rightarrow> None)
     | None \<Rightarrow> None)"

definition fieldOf :: "Program \<Rightarrow> handle \<Rightarrow> Field option" where
  "fieldOf p h =
    (case deref p h of
       Some e \<Rightarrow> (case payload e of FieldData d \<Rightarrow> Some d | _ \<Rightarrow> None)
     | None \<Rightarrow> None)"

definition updateClassPrototype ::
  "handle \<Rightarrow> (ClassPrototype \<Rightarrow> ClassPrototype) \<Rightarrow> Program \<Rightarrow> Program" where
  "updateClassPrototype h f p =
    update h (\<lambda>e. case payload e of
                     ClassPrototypeData d \<Rightarrow> e\<lparr>payload := ClassPrototypeData (f d)\<rparr>
                   | _ \<Rightarrow> e) p"

definition updateFunctionPrototype ::
  "handle \<Rightarrow> (FunctionPrototype \<Rightarrow> FunctionPrototype) \<Rightarrow> Program \<Rightarrow> Program" where
  "updateFunctionPrototype h f p =
    update h (\<lambda>e. case payload e of
                     FunctionPrototypeData d \<Rightarrow> e\<lparr>payload := FunctionPrototypeData (f d)\<rparr>
                   | _ \<Rightarrow> e) p"

definition updateClass :: "handle \<Rightarrow> (Class \<Rightarrow> Class) \<Rightarrow> Program \<Rightarrow> Program" where
  "updateClass h f p =
    update h (\<lambda>e. case payload e of
                     ClassData d \<Rightarrow> e\<lparr>payload := ClassData (f d)\<rparr>
                   | _ \<Rightarrow> e) p"

definition updateProperty :: "handle \<Rightarrow> (Property \<Rightarrow> Property) \<Rightarrow> Program \<Rightarrow> Program" where
  "updateProperty h f p =
    update h (\<lambda>e. case payload e of
                     PropertyData d \<Rightarrow> e\<lparr>payload := PropertyData (f d)\<rparr>
                   | _ \<Rightarrow> e) p"

text \<open>\<open>members.set(name, element)\<close> on the element \<open>h\<close>, creating the map when it is null.\<close>

definition setMember :: "handle \<Rightarrow> string \<Rightarrow> handle \<Rightarrow> Program \<Rightarrow> Program" where
  "setMember h name element p =
    update h (\<lambda>e. e\<lparr>members :=
      Some (Map_set (case members e of None \<Rightarrow> [] | Some m \<Rightarrow> m) name element)\<rparr>) p"

text \<open>\<open>Type.toString\<close> and \<open>typesToString\<close> of \<open>./types\<close> (see above).\<close>

fun Type_toString :: "Program \<Rightarrow> Type \<Rightarrow> string"
and Signature_toString :: "Program \<Rightarrow> Signature \<Rightarrow> string"
and Types_toStrings :: "Program \<Rightarrow> Type list \<Rightarrow> string list" where
  "Type_toString p (Type k n c sg) =
    (case c of
       Some h \<Rightarrow> (case deref p h of Some e \<Rightarrow> simpleName e | None \<Rightarrow> TypeKind_toString k)
     | None \<Rightarrow>
        (case sg of
           Some g \<Rightarrow> Signature_toString p g
         | None \<Rightarrow> TypeKind_toString k))"
| "Signature_toString p (Signature ts ns r hr rt tt) =
    ''('' @ join (Types_toStrings p ts) '','' @ '') => '' @ Type_toString p rt"
| "Types_toStrings p [] = []"
| "Types_toStrings p (t # ts) = Type_toString p t # Types_toStrings p ts"

definition typesToString :: "Program \<Rightarrow> Type list \<Rightarrow> string" where
  "typesToString p types = join (Types_toStrings p types) '',''"

subsection \<open>Failure\<close>

text \<open>
  A failed \<open>assert\<close>, a \<open>throw\<close>, and the end of the fuel that bounds the depth of the
  resolver's recursion. \<open>BadReference\<close> is a cast of an element to a class it is not an
  instance of.
\<close>

datatype Error =
    AssertionFailed
  | Thrown string
  | OutOfFuel
  | BadReference

definition digit :: "nat \<Rightarrow> char" where
  "digit n = ''0123456789'' ! n"

fun toString10 :: "nat \<Rightarrow> string" where
  "toString10 n = (if n < 10 then [digit n] else toString10 (n div 10) @ [digit (n mod 10)])"

subsection \<open>The initializer\<close>

text \<open>\<open>filterDecorators\<close> (lines 444-470): the loop, with \<open>presentFlags\<close> as accumulator.\<close>

fun filterDecorators_loop ::
  "DecoratorNode list \<Rightarrow> DecoratorFlags \<Rightarrow> DecoratorFlags \<Rightarrow> Program \<Rightarrow> DecoratorFlags \<times> Program" where
  "filterDecorators_loop [] acceptedFlags presentFlags p = (presentFlags, p)"
| "filterDecorators_loop (decorator # rest) acceptedFlags presentFlags p =
    (case dn_name decorator of
       Identifier ident \<Rightarrow>
        (let name = id_text ident;
             kind = stringToDecoratorKind name;
             flag = decoratorKindToFlag kind
         in if flag \<noteq> 0 then
              (if (acceptedFlags AND flag) = 0 then
                 filterDecorators_loop rest acceptedFlags presentFlags
                   (error Decorator_0_is_not_valid_here [name] p)
               else if (presentFlags AND flag) \<noteq> 0 then
                 filterDecorators_loop rest acceptedFlags presentFlags
                   (error Duplicate_decorator [name] p)
               else filterDecorators_loop rest acceptedFlags (presentFlags OR flag) p)
            else filterDecorators_loop rest acceptedFlags presentFlags p)
     | _ \<Rightarrow> filterDecorators_loop rest acceptedFlags presentFlags p)"

definition filterDecorators ::
  "DecoratorNode list \<Rightarrow> DecoratorFlags \<Rightarrow> Program \<Rightarrow> DecoratorFlags \<times> Program" where
  "filterDecorators decorators acceptedFlags p =
    filterDecorators_loop decorators acceptedFlags DecoratorFlags_NONE p"

text \<open>
  \<open>checkGlobalOptions\<close> (lines 473-504). \<open>parentIsSource\<close> is the last conjunct of its
  condition, with its two asserts.
\<close>

definition parentIsSource :: "NodeKind list \<Rightarrow> Error + bool" where
  "parentIsSource parentKinds =
    (case parentKinds of
       [] \<Rightarrow> Inl AssertionFailed
     | parentKind # ancestors \<Rightarrow>
        if parentKind = NodeKind_SOURCE then Inr True
        else if parentKind = NodeKind_VARIABLE then
          (case ancestors of
             [] \<Rightarrow> Inl AssertionFailed
           | grandParentKind # _ \<Rightarrow> Inr (grandParentKind = NodeKind_SOURCE))
        else Inr False)"

definition publishGlobal :: "handle \<Rightarrow> string \<Rightarrow> Program \<Rightarrow> Program" where
  "publishGlobal element name p =
    (case deref p element of
       None \<Rightarrow> p
     | Some e \<Rightarrow>
        if Map_has (elementsLookup p) name then error Duplicate_identifier_0 [internalName e] p
        else
          (let p1 = p\<lparr>elementsLookup := Map_set (elementsLookup p) name element\<rparr>
           in if is_flag e CommonFlags_BUILTIN
              then update element (\<lambda>e. e\<lparr>internalName := name\<rparr>) p1
              else p1))"

definition checkGlobalOptions ::
  "handle \<Rightarrow> string \<Rightarrow> Source \<Rightarrow> NodeKind list \<Rightarrow> Program \<Rightarrow> Error + Program" where
  "checkGlobalOptions element name source parentKinds p =
    (case deref p element of
       None \<Rightarrow> Inl BadReference
     | Some e \<Rightarrow>
        if hasDecorator e DecoratorFlags_GLOBAL then Inr (publishGlobal element name p)
        else if isLibrary source \<and> is_flag e CommonFlags_EXPORT then
          (case parentIsSource parentKinds of
             Inl err \<Rightarrow> Inl err
           | Inr b \<Rightarrow> if b then Inr (publishGlobal element name p) else Inr p)
        else Inr p)"

text \<open>The constructors of \<open>FunctionPrototype\<close> (lines 2524-2537) and of the other elements.\<close>

definition new_FunctionPrototype ::
  "string \<Rightarrow> string \<Rightarrow> FunctionDeclaration \<Rightarrow> handle option \<Rightarrow> DecoratorFlags \<Rightarrow> Element" where
  "new_FunctionPrototype name iname decl classPrototype decorators =
    \<lparr>kind = ElementKind_FUNCTION_PROTOTYPE, simpleName = name, internalName = iname,
     flags = fn_flags decl, decoratorFlags = decorators, members = None, namespace = None,
     payload = FunctionPrototypeData
       \<lparr>fp_declaration = decl, fp_classPrototype = classPrototype, fp_instances = [],
        fp_classTypeArguments = None, fp_operatorKind = OperatorKind_INVALID\<rparr>\<rparr>"

definition new_ClassPrototype ::
  "string \<Rightarrow> string \<Rightarrow> ClassDeclaration \<Rightarrow> DecoratorFlags \<Rightarrow> Element" where
  "new_ClassPrototype name iname decl decorators =
    \<lparr>kind = ElementKind_CLASS_PROTOTYPE, simpleName = name, internalName = iname,
     flags = cd_flags decl, decoratorFlags = decorators, members = None, namespace = None,
     payload = ClassPrototypeData
       \<lparr>cp_declaration = decl, cp_instances = [], cp_instanceMembers = None,
        cp_basePrototype = None, cp_constructorPrototype = None, cp_overloadPrototypes = []\<rparr>\<rparr>"

definition new_Global :: "string \<Rightarrow> string \<Rightarrow> Type \<Rightarrow> FieldDeclaration option \<Rightarrow> Element" where
  "new_Global name iname t decl =
    \<lparr>kind = ElementKind_GLOBAL, simpleName = name, internalName = iname,
     flags = (case decl of Some d \<Rightarrow> fd_flags d | None \<Rightarrow> CommonFlags_NONE),
     decoratorFlags = DecoratorFlags_NONE, members = None, namespace = None,
     payload = GlobalData \<lparr>g_type = t, g_declaration = decl\<rparr>\<rparr>"

definition new_FieldPrototype :: "handle \<Rightarrow> string \<Rightarrow> string \<Rightarrow> FieldDeclaration \<Rightarrow> Element" where
  "new_FieldPrototype classPrototype name iname decl =
    \<lparr>kind = ElementKind_FIELD_PROTOTYPE, simpleName = name, internalName = iname,
     flags = fd_flags decl, decoratorFlags = DecoratorFlags_NONE, members = None,
     namespace = None,
     payload = FieldPrototypeData \<lparr>fpr_declaration = decl, fpr_classPrototype = classPrototype\<rparr>\<rparr>"

definition new_Property :: "string \<Rightarrow> string \<Rightarrow> handle \<Rightarrow> Element" where
  "new_Property name iname parent =
    \<lparr>kind = ElementKind_PROPERTY, simpleName = name, internalName = iname,
     flags = CommonFlags_NONE, decoratorFlags = DecoratorFlags_NONE, members = None,
     namespace = None,
     payload = PropertyData
       \<lparr>pr_parent = parent, pr_getterPrototype = None, pr_setterPrototype = None\<rparr>\<rparr>"

text \<open>\<open>instanceMembers.set(name, element)\<close> on a class prototype, creating the map first.\<close>

definition setInstanceMember :: "handle \<Rightarrow> string \<Rightarrow> handle \<Rightarrow> Program \<Rightarrow> Program" where
  "setInstanceMember classPrototype name element p =
    updateClassPrototype classPrototype (\<lambda>d. d\<lparr>cp_instanceMembers :=
      Some (Map_set (case cp_instanceMembers d of None \<Rightarrow> [] | Some m \<Rightarrow> m) name element)\<rparr>) p"

definition hasMember :: "Element \<Rightarrow> string \<Rightarrow> bool" where
  "hasMember e name = (case members e of None \<Rightarrow> False | Some m \<Rightarrow> Map_has m name)"

definition hasInstanceMember :: "ClassPrototype \<Rightarrow> string \<Rightarrow> bool" where
  "hasInstanceMember d name =
    (case cp_instanceMembers d of None \<Rightarrow> False | Some m \<Rightarrow> Map_has m name)"

text \<open>\<open>initializeField\<close> (lines 631-689).\<close>

definition initializeField :: "FieldDeclaration \<Rightarrow> handle \<Rightarrow> Program \<Rightarrow> Error + Program" where
  "initializeField decl classPrototype p =
    (case (deref p classPrototype, classPrototypeOf p classPrototype) of
       (Some cpe, Some cpd) \<Rightarrow>
        (let name = fd_name decl; iname = fd_fileLevelInternalName decl
         in if (fd_flags decl AND CommonFlags_STATIC) = CommonFlags_STATIC then
              (if Map_has (elementsLookup p) iname then
                 Inr (error Duplicate_identifier_0 [iname] p)
               else if hasMember cpe name then
                 Inr (error Duplicate_identifier_0 [iname] p)
               else
                 (let (staticField, p1) = alloc (new_Global name iname Type_void (Some decl)) p;
                      p2 = setMember classPrototype name staticField p1
                  in Inr (p2\<lparr>elementsLookup := Map_set (elementsLookup p2) iname staticField\<rparr>)))
            else
              (if hasInstanceMember cpd name then
                 Inr (error Duplicate_identifier_0 [iname] p)
               else
                 (let (instanceField, p1) =
                        alloc (new_FieldPrototype classPrototype name iname decl) p
                  in Inr (setInstanceMember classPrototype name instanceField p1))))
     | _ \<Rightarrow> Inl BadReference)"

text \<open>\<open>checkOperatorOverloads\<close> (lines 788-841): one decorator, then the loop.\<close>

definition checkOperatorOverload :: "DecoratorNode \<Rightarrow> handle \<Rightarrow> handle \<Rightarrow> Program \<Rightarrow> Error + Program" where
  "checkOperatorOverload decorator prototype classPrototype p =
    (if dn_decoratorKind decorator = DecoratorKind_OPERATOR then
       (let numArgs = (case dn_arguments decorator of None \<Rightarrow> 0 | Some args \<Rightarrow> length args)
        in if numArgs = 1 then
             (case dn_arguments decorator of
                Some (firstArg # _) \<Rightarrow>
                 (case firstArg of
                    Literal LiteralKind_STRING v \<Rightarrow>
                     (let kind = operatorKindFromString v
                      in if kind = OperatorKind_INVALID then
                           Inr (error Operation_not_supported [] p)
                         else
                           (case classPrototypeOf p classPrototype of
                              None \<Rightarrow> Inl BadReference
                            | Some cpd \<Rightarrow>
                               if Map_has (cp_overloadPrototypes cpd) kind then
                                 Inr (error Duplicate_function_implementation [] p)
                               else
                                 Inr (updateClassPrototype classPrototype
                                        (\<lambda>d. d\<lparr>cp_overloadPrototypes :=
                                               Map_set (cp_overloadPrototypes d) kind prototype\<rparr>)
                                        (updateFunctionPrototype prototype
                                           (\<lambda>d. d\<lparr>fp_operatorKind := kind\<rparr>) p))))
                  | _ \<Rightarrow> Inr (error String_literal_expected [] p))
              | _ \<Rightarrow> Inl BadReference)
           else Inr (error Expected_0_arguments_but_got_1 [''1'', toString10 numArgs] p))
     else Inr p)"

fun checkOperatorOverloads_loop ::
  "DecoratorNode list \<Rightarrow> handle \<Rightarrow> handle \<Rightarrow> Program \<Rightarrow> Error + Program" where
  "checkOperatorOverloads_loop [] prototype classPrototype p = Inr p"
| "checkOperatorOverloads_loop (decorator # rest) prototype classPrototype p =
    (case checkOperatorOverload decorator prototype classPrototype p of
       Inl err \<Rightarrow> Inl err
     | Inr p1 \<Rightarrow> checkOperatorOverloads_loop rest prototype classPrototype p1)"

definition checkOperatorOverloads ::
  "DecoratorNode list option \<Rightarrow> handle \<Rightarrow> handle \<Rightarrow> Program \<Rightarrow> Error + Program" where
  "checkOperatorOverloads decorators prototype classPrototype p =
    (case decorators of
       None \<Rightarrow> Inr p
     | Some ds \<Rightarrow> checkOperatorOverloads_loop ds prototype classPrototype p)"

text \<open>
  \<open>initializeMethod\<close> (lines 691-786). \<open>declaredWith\<close> is \<open>declaration.is(flag)\<close>:
  \<open>Node.is\<close> tests the flags of a declaration as \<open>Element.is\<close> does (line 2322).
\<close>

definition declaredWith :: "CommonFlags \<Rightarrow> CommonFlags \<Rightarrow> bool" where
  "declaredWith fs flag = ((fs AND flag) = flag)"

definition ensureInstanceMembers :: "handle \<Rightarrow> Program \<Rightarrow> Program" where
  "ensureInstanceMembers classPrototype p =
    updateClassPrototype classPrototype (\<lambda>d. d\<lparr>cp_instanceMembers :=
      Some (case cp_instanceMembers d of None \<Rightarrow> [] | Some m \<Rightarrow> m)\<rparr>) p"

definition inheritModuleExport :: "Element \<Rightarrow> handle \<Rightarrow> Program \<Rightarrow> Program" where
  "inheritModuleExport parent element p =
    (if is_flag parent CommonFlags_MODULE_EXPORT
     then update element (\<lambda>e. set_flag e CommonFlags_MODULE_EXPORT) p
     else p)"

definition initializeMethod :: "FunctionDeclaration \<Rightarrow> handle \<Rightarrow> Program \<Rightarrow> Error + Program" where
  "initializeMethod decl classPrototype p0 =
    (let name = fn_name decl;
         iname = fn_fileLevelInternalName decl;
         (decorators, p) =
           (case fn_decorators decl of
              Some ds \<Rightarrow> filterDecorators ds DecoratorFlags_INLINE p0
            | None \<Rightarrow> (DecoratorFlags_NONE, p0))
     in case (deref p classPrototype, classPrototypeOf p classPrototype) of
          (Some cpe, Some cpd) \<Rightarrow>
           if declaredWith (fn_flags decl) CommonFlags_STATIC then
             (if fn_nameKind decl = NodeKind_CONSTRUCTOR then Inl AssertionFailed
              else if Map_has (elementsLookup p) iname then
                Inr (error Duplicate_identifier_0 [iname] p)
              else if hasMember cpe name then
                Inr (error Duplicate_identifier_0 [iname] p)
              else
                (let (prototype, p1) =
                       alloc (new_FunctionPrototype name iname decl (Some classPrototype) decorators) p;
                     p2 = setMember classPrototype name prototype p1;
                     p3 = p2\<lparr>elementsLookup := Map_set (elementsLookup p2) iname prototype\<rparr>;
                     p4 = inheritModuleExport cpe prototype p3
                 in checkOperatorOverloads (fn_decorators decl) prototype classPrototype p4))
           else
             (if hasInstanceMember cpd name then
                Inr (error Duplicate_identifier_0 [iname] p)
              else
                (let p1 = ensureInstanceMembers classPrototype p;
                     (prototype, p2) =
                       alloc (new_FunctionPrototype name iname decl (Some classPrototype) decorators) p1;
                     p3 =
                       (if fn_nameKind decl = NodeKind_CONSTRUCTOR then
                          (if cp_constructorPrototype cpd \<noteq> None then
                             error Multiple_constructor_implementations_are_not_allowed [] p2
                           else
                             updateClassPrototype classPrototype
                               (\<lambda>d. d\<lparr>cp_constructorPrototype := Some prototype\<rparr>)
                               (update prototype (\<lambda>e. set_flag e CommonFlags_CONSTRUCTOR) p2))
                        else setInstanceMember classPrototype name prototype p2);
                     p4 = inheritModuleExport cpe prototype p3
                 in checkOperatorOverloads (fn_decorators decl) prototype classPrototype p4))
        | _ \<Rightarrow> Inl BadReference)"

text \<open>\<open>initializeAccessor\<close> (lines 843-963).\<close>

definition GETTER_PREFIX :: string where "GETTER_PREFIX = ''get:''"
definition SETTER_PREFIX :: string where "SETTER_PREFIX = ''set:''"
definition INSTANCE_DELIMITER :: string where "INSTANCE_DELIMITER = ''#''"
definition STATIC_DELIMITER :: string where "STATIC_DELIMITER = ''.''"
definition PATH_DELIMITER :: string where "PATH_DELIMITER = ''/''"

definition setAccessor :: "bool \<Rightarrow> handle \<Rightarrow> handle \<Rightarrow> Program \<Rightarrow> Program" where
  "setAccessor isGetter property prototype p =
    (if isGetter
     then updateProperty property (\<lambda>d. d\<lparr>pr_getterPrototype := Some prototype\<rparr>) p
     else updateProperty property (\<lambda>d. d\<lparr>pr_setterPrototype := Some prototype\<rparr>) p)"

definition initializeAccessor_rest ::
  "FunctionDeclaration \<Rightarrow> handle \<Rightarrow> handle \<Rightarrow> bool \<Rightarrow> Program \<Rightarrow> Error + Program" where
  "initializeAccessor_rest decl classPrototype propertyElement isNew p0 =
    (let name = fn_name decl;
         internalPropertyName = fn_fileLevelInternalName decl;
         isGetter = declaredWith (fn_flags decl) CommonFlags_GET;
         (decorators, p) =
           (case fn_decorators decl of
              Some ds \<Rightarrow> filterDecorators ds DecoratorFlags_INLINE p0
            | None \<Rightarrow> (DecoratorFlags_NONE, p0));
         baseName = (if isGetter then GETTER_PREFIX else SETTER_PREFIX) @ name
     in case (deref p classPrototype, classPrototypeOf p classPrototype) of
          (Some cpe, Some cpd) \<Rightarrow>
           if declaredWith (fn_flags decl) CommonFlags_STATIC then
             (let staticName = internalName cpe @ STATIC_DELIMITER @ baseName
              in if Map_has (elementsLookup p) staticName then
                   Inr (error Duplicate_identifier_0 [staticName] p)
                 else
                   (let (staticPrototype, p1) =
                          alloc (new_FunctionPrototype baseName staticName decl None decorators) p;
                        p2 = setAccessor isGetter propertyElement staticPrototype p1
                    in if isNew \<and> hasMember cpe name then
                         Inr (error Duplicate_identifier_0 [staticName] p2)
                       else if \<not> isNew \<and> \<not> hasMember cpe name then Inl AssertionFailed
                       else
                         (let p3 = (if isNew then setMember classPrototype name propertyElement p2
                                    else p2);
                              p4 = p3\<lparr>elementsLookup :=
                                     Map_set (elementsLookup p3) internalPropertyName propertyElement\<rparr>
                          in Inr (inheritModuleExport cpe propertyElement p4))))
           else
             (let instanceName = internalName cpe @ INSTANCE_DELIMITER @ baseName
              in if hasInstanceMember cpd baseName then
                   Inr (error Duplicate_identifier_0 [internalPropertyName] p)
                 else
                   (let p1 = ensureInstanceMembers classPrototype p;
                        (instancePrototype, p2) =
                          alloc (new_FunctionPrototype baseName instanceName decl
                                   (Some classPrototype) decorators) p1;
                        p3 = setAccessor isGetter propertyElement instancePrototype p2;
                        p4 = setInstanceMember classPrototype baseName propertyElement p3;
                        p5 = p4\<lparr>elementsLookup :=
                               Map_set (elementsLookup p4) internalPropertyName propertyElement\<rparr>
                    in Inr (inheritModuleExport cpe propertyElement p5)))
        | _ \<Rightarrow> Inl BadReference)"

definition initializeAccessor :: "FunctionDeclaration \<Rightarrow> handle \<Rightarrow> Program \<Rightarrow> Error + Program" where
  "initializeAccessor decl classPrototype p =
    (let name = fn_name decl;
         internalPropertyName = fn_fileLevelInternalName decl;
         isGetter = declaredWith (fn_flags decl) CommonFlags_GET
     in case Map_get (elementsLookup p) internalPropertyName of
          Some propertyElement \<Rightarrow>
           (case deref p propertyElement of
              None \<Rightarrow> Inl BadReference
            | Some pe \<Rightarrow>
               (case payload pe of
                  PropertyData pd \<Rightarrow>
                   if kind pe \<noteq> ElementKind_PROPERTY
                      \<or> (if isGetter then pr_getterPrototype pd else pr_setterPrototype pd) \<noteq> None
                   then Inr (error Duplicate_identifier_0 [internalPropertyName] p)
                   else initializeAccessor_rest decl classPrototype propertyElement False p
                | _ \<Rightarrow> Inr (error Duplicate_identifier_0 [internalPropertyName] p)))
        | None \<Rightarrow>
           (let (propertyElement, p1) =
                  alloc (new_Property name internalPropertyName classPrototype) p
            in initializeAccessor_rest decl classPrototype propertyElement True p1))"

text \<open>\<open>initializeClass\<close> (lines 506-629): the loop over the members, then the function.\<close>

fun initializeClass_members :: "ClassMember list \<Rightarrow> handle \<Rightarrow> Program \<Rightarrow> Error + Program" where
  "initializeClass_members [] prototype p = Inr p"
| "initializeClass_members (memberDeclaration # rest) prototype p =
    (case (case memberDeclaration of
             FieldDeclarationMember d \<Rightarrow> initializeField d prototype p
           | MethodDeclarationMember d \<Rightarrow>
               if isAny (fn_flags d) (CommonFlags_GET OR CommonFlags_SET)
               then initializeAccessor d prototype p
               else initializeMethod d prototype p
           | OtherMember \<Rightarrow> Inl (Thrown ''class member expected'')) of
       Inl err \<Rightarrow> Inl err
     | Inr p1 \<Rightarrow> initializeClass_members rest prototype p1)"

text \<open>
  The queues of \<open>initialize\<close> (lines 243-246) travel with the program: the derived
  classes still to be linked to their base, and the classes that implement interfaces.
\<close>

record Queues =
  queuedExtends :: "handle list"
  queuedImplements :: "handle list"

definition initializeClass_finish ::
  "ClassDeclaration \<Rightarrow> handle \<Rightarrow> Queues \<Rightarrow> Program \<Rightarrow> Error + Queues \<times> Program" where
  "initializeClass_finish decl prototype qs p =
    (case initializeClass_members (cd_members decl) prototype p of
       Inl err \<Rightarrow> Inl err
     | Inr p1 \<Rightarrow>
        (case checkGlobalOptions prototype (cd_name decl) (cd_source decl) (cd_parentKinds decl) p1 of
           Inl err \<Rightarrow> Inl err
         | Inr p2 \<Rightarrow> Inr (qs, p2)))"

definition initializeClass ::
  "ClassDeclaration \<Rightarrow> Queues \<Rightarrow> handle option \<Rightarrow> Program \<Rightarrow> Error + Queues \<times> Program" where
  "initializeClass decl qs0 namespaceElement p0 =
    (let iname = cd_fileLevelInternalName decl
     in if Map_has (elementsLookup p0) iname then
          Inr (qs0, error Duplicate_identifier_0 [iname] p0)
        else
          (let name = cd_name decl;
               (decorators, p1) =
                 (case cd_decorators decl of
                    Some ds \<Rightarrow> filterDecorators ds
                      (DecoratorFlags_GLOBAL OR DecoratorFlags_SEALED OR DecoratorFlags_UNMANAGED) p0
                  | None \<Rightarrow> (DecoratorFlags_NONE, p0));
               (prototype, p2) =
                 alloc ((new_ClassPrototype name iname decl decorators)
                          \<lparr>namespace := namespaceElement\<rparr>) p1;
               p3 = p2\<lparr>elementsLookup := Map_set (elementsLookup p2) iname prototype\<rparr>;
               unmanaged = ((decorators AND DecoratorFlags_UNMANAGED) = DecoratorFlags_UNMANAGED);
               exported = declaredWith (cd_flags decl) CommonFlags_EXPORT;
               numImplementsTypes =
                 (case cd_implementsTypes decl of None \<Rightarrow> 0 | Some ts \<Rightarrow> length ts);
               p4 = (if unmanaged \<and> numImplementsTypes \<noteq> 0
                     then error Unmanaged_classes_cannot_implement_interfaces [] p3 else p3);
               qs1 = (if \<not> unmanaged \<and> numImplementsTypes \<noteq> 0
                      then qs0\<lparr>queuedImplements := queuedImplements qs0 @ [prototype]\<rparr> else qs0);
               qs = (if cd_extendsType decl \<noteq> None
                     then qs1\<lparr>queuedExtends := queuedExtends qs1 @ [prototype]\<rparr> else qs1)
           in case namespaceElement of
                Some ns \<Rightarrow>
                 (case deref p4 ns of
                    None \<Rightarrow> Inl BadReference
                  | Some nse \<Rightarrow>
                     if hasMember nse name then
                       Inr (qs, error Duplicate_identifier_0 [iname] p4)
                     else
                       (let p5 = setMember ns name prototype p4;
                            p6 = (if is_flag nse CommonFlags_MODULE_EXPORT \<and> exported
                                  then update prototype (\<lambda>e. set_flag e CommonFlags_MODULE_EXPORT) p5
                                  else p5)
                        in initializeClass_finish decl prototype qs p6))
              | None \<Rightarrow>
                 if exported then
                   (if Map_has (fileLevelExports p4) iname then
                      Inr (qs, error Export_declaration_conflicts_with_exported_declaration_of_0
                                 [iname] p4)
                    else
                      (let p5 = p4\<lparr>fileLevelExports := Map_set (fileLevelExports p4) iname prototype\<rparr>
                       in if exported \<and> isEntry (cd_source decl) then
                            (if Map_has (moduleLevelExports p5) iname then
                               Inr (qs, error
                                 Export_declaration_conflicts_with_exported_declaration_of_0
                                 [iname] p5)
                             else
                               (let p6 = update prototype
                                           (\<lambda>e. set_flag e CommonFlags_MODULE_EXPORT) p5;
                                    p7 = p6\<lparr>moduleLevelExports :=
                                           Map_set (moduleLevelExports p6) iname prototype\<rparr>
                                in initializeClass_finish decl prototype qs p7))
                          else initializeClass_finish decl prototype qs p5))
                 else initializeClass_finish decl prototype qs p4))"

subsection \<open>Export statements and the queues of \<open>initialize\<close>\<close>

text \<open>\<open>class QueuedExport\<close> (lines 97-101).\<close>

record QueuedExport =
  qe_isReExport :: bool
  qe_referencedName :: string
  qe_member :: ExportMember

text \<open>\<open>setExportAndCheckLibrary\<close> (lines 1063-1080).\<close>

definition setExportAndCheckLibrary ::
  "string \<Rightarrow> handle \<Rightarrow> IdentifierExpression \<Rightarrow> Program \<Rightarrow> Program" where
  "setExportAndCheckLibrary name element identifier p0 =
    (let p = p0\<lparr>fileLevelExports := Map_set (fileLevelExports p0) name element\<rparr>
     in if isLibrary (id_source identifier) then
          (if Map_has (elementsLookup p) (id_text identifier) then
             error Export_declaration_conflicts_with_exported_declaration_of_0
               [id_text identifier] p
           else
             (let p1 = update element (\<lambda>e. e\<lparr>internalName := id_text identifier\<rparr>) p
              in p1\<lparr>elementsLookup := Map_set (elementsLookup p1) (id_text identifier) element\<rparr>))
        else p)"

text \<open>
  The walk over the queued exports already known, in \<open>initializeExport\<close> (lines
  1142-1170). A queued export is an object stored under one key of the map, so the set
  \<open>seen\<close> of objects is kept as the keys they were found under. The walk ends with the
  element found, or with the referenced name it stopped at.
\<close>

datatype Walk = Found handle | Stopped string

function walkQueuedExports ::
  "(string, QueuedExport) Map \<Rightarrow> Program \<Rightarrow> string list \<Rightarrow> string \<Rightarrow> Walk" where
  "walkQueuedExports queuedExports p seen referencedName =
    (case Map_get queuedExports referencedName of
       None \<Rightarrow> Stopped referencedName
     | Some queuedExport \<Rightarrow>
        if qe_isReExport queuedExport then
          (case Map_get (fileLevelExports p) (qe_referencedName queuedExport) of
             Some referencedElement \<Rightarrow> Found referencedElement
           | None \<Rightarrow>
              if referencedName \<in> set seen then Stopped (qe_referencedName queuedExport)
              else walkQueuedExports queuedExports p (referencedName # seen)
                     (qe_referencedName queuedExport))
        else
          (case Map_get (elementsLookup p) (qe_referencedName queuedExport) of
             Some referencedElement \<Rightarrow> Found referencedElement
           | None \<Rightarrow> Stopped referencedName))"
  by pat_completeness auto
termination
proof (relation "measure (\<lambda>(queuedExports, p, seen, referencedName).
                   card (fst ` set queuedExports - set seen))")
  show "wf (measure (\<lambda>(queuedExports, p, seen, referencedName).
                   card (fst ` set queuedExports - set seen)))"
    by simp
next
  fix queuedExports :: "(string, QueuedExport) Map" and p :: Program
    and seen :: "string list" and referencedName :: string and queuedExport :: QueuedExport
  assume get: "Map_get queuedExports referencedName = Some queuedExport"
    and new: "referencedName \<notin> set seen"
  from get have "referencedName \<in> fst ` set queuedExports"
    by (auto simp: Map_get_def dest: map_of_SomeD intro: rev_image_eqI)
  with new have "fst ` set queuedExports - set (referencedName # seen)
      \<subset> fst ` set queuedExports - set seen"
    by auto
  then have "card (fst ` set queuedExports - set (referencedName # seen))
      < card (fst ` set queuedExports - set seen)"
    by (intro psubset_card_mono) auto
  then show "((queuedExports, p, referencedName # seen, qe_referencedName queuedExport),
              (queuedExports, p, seen, referencedName))
             \<in> measure (\<lambda>(queuedExports, p, seen, referencedName).
                   card (fst ` set queuedExports - set seen))"
    by simp
qed

text \<open>\<open>initializeExport\<close> (lines 1082-1186) and \<open>initializeExports\<close> (lines 1053-1061).\<close>

definition queueExport ::
  "string \<Rightarrow> QueuedExport \<Rightarrow> ExportMember \<Rightarrow> (string, QueuedExport) Map \<Rightarrow> Program
    \<Rightarrow> (string, QueuedExport) Map \<times> Program" where
  "queueExport externalName queuedExport member queuedExports p =
    (if Map_has queuedExports externalName then
       (queuedExports,
        error Export_declaration_conflicts_with_exported_declaration_of_0 [externalName] p)
     else (Map_set queuedExports externalName queuedExport, p))"

definition initializeExport ::
  "ExportMember \<Rightarrow> string option \<Rightarrow> (string, QueuedExport) Map \<Rightarrow> Program
    \<Rightarrow> (string, QueuedExport) Map \<times> Program" where
  "initializeExport member internalPathOpt queuedExports p =
    (let externalName =
           internalPath (em_source member) @ PATH_DELIMITER @ id_text (em_externalName member)
     in if Map_has (fileLevelExports p) externalName then
          (queuedExports,
           error Export_declaration_conflicts_with_exported_declaration_of_0 [externalName] p)
        else
          (case internalPathOpt of
             None \<Rightarrow>
              (let referencedName =
                     internalPath (em_source member) @ PATH_DELIMITER @ id_text (em_name member)
               in case Map_get (elementsLookup p) referencedName of
                    Some referencedElement \<Rightarrow>
                     (queuedExports,
                      setExportAndCheckLibrary externalName referencedElement
                        (em_externalName member) p)
                  | None \<Rightarrow>
                     queueExport externalName
                       \<lparr>qe_isReExport = False, qe_referencedName = referencedName,
                        qe_member = member\<rparr> member queuedExports p)
           | Some path \<Rightarrow>
              (let referencedName = path @ PATH_DELIMITER @ id_text (em_name member)
               in case Map_get (elementsLookup p) referencedName of
                    Some referencedElement \<Rightarrow>
                     (queuedExports,
                      setExportAndCheckLibrary externalName referencedElement
                        (em_externalName member) p)
                  | None \<Rightarrow>
                     (case walkQueuedExports queuedExports p [] referencedName of
                        Found referencedElement \<Rightarrow>
                         (queuedExports,
                          setExportAndCheckLibrary externalName referencedElement
                            (em_externalName member) p)
                      | Stopped finalName \<Rightarrow>
                         queueExport externalName
                           \<lparr>qe_isReExport = True, qe_referencedName = finalName,
                            qe_member = member\<rparr> member queuedExports p))))"

fun initializeExports_loop ::
  "ExportMember list \<Rightarrow> string option \<Rightarrow> (string, QueuedExport) Map \<Rightarrow> Program
    \<Rightarrow> (string, QueuedExport) Map \<times> Program" where
  "initializeExports_loop [] path queuedExports p = (queuedExports, p)"
| "initializeExports_loop (member # rest) path queuedExports p =
    (let (queuedExports1, p1) = initializeExport member path queuedExports p
     in initializeExports_loop rest path queuedExports1 p1)"

definition initializeExports ::
  "ExportStatement \<Rightarrow> (string, QueuedExport) Map \<Rightarrow> Program
    \<Rightarrow> (string, QueuedExport) Map \<times> Program" where
  "initializeExports statement queuedExports p =
    initializeExports_loop (es_members statement) (es_internalPath statement) queuedExports p"

text \<open>
  \<open>tryResolveImport\<close> (lines 426-442). The \<open>do ... while (true)\<close> loop has no bound:
  the function is partial, and \<open>None\<close> is the run that never returns. A run that
  returns gives \<open>Some\<close> of the element, or \<open>Some None\<close> for \<open>null\<close>.
\<close>

partial_function (option) tryResolveImport ::
  "Program \<Rightarrow> (string, QueuedExport) Map \<Rightarrow> string \<Rightarrow> handle option option" where
  "tryResolveImport p queuedExports referencedName =
    (case Map_get (fileLevelExports p) referencedName of
       Some element \<Rightarrow> Some (Some element)
     | None \<Rightarrow>
        (case Map_get queuedExports referencedName of
           None \<Rightarrow> Some None
         | Some queuedExport \<Rightarrow>
            if qe_isReExport queuedExport
            then tryResolveImport p queuedExports (qe_referencedName queuedExport)
            else Some (Map_get (elementsLookup p) (qe_referencedName queuedExport))))"

text \<open>
  The loop of \<open>initialize\<close> that resolves the queued exports (lines 318-362): the inner
  \<open>do ... while (currentExport)\<close> for one entry, which has no bound either, then the
  \<open>for\<close> loop over the entries.
\<close>

partial_function (option) resolveQueuedExport ::
  "(string, QueuedExport) Map \<Rightarrow> string \<Rightarrow> QueuedExport \<Rightarrow> QueuedExport \<Rightarrow> Program
    \<Rightarrow> Program option" where
  "resolveQueuedExport queuedExports exportName queuedExport currentExport p =
    (if qe_isReExport currentExport then
       (case Map_get (fileLevelExports p) (qe_referencedName currentExport) of
          Some element \<Rightarrow>
           Some (setExportAndCheckLibrary exportName element
                   (em_externalName (qe_member currentExport)) p)
        | None \<Rightarrow>
           (case Map_get queuedExports (qe_referencedName currentExport) of
              None \<Rightarrow>
               Some (error Module_0_has_no_exported_member_1
                       [em_statementPath (qe_member queuedExport),
                        id_text (em_externalName (qe_member queuedExport))] p)
            | Some nextExport \<Rightarrow>
               resolveQueuedExport queuedExports exportName queuedExport nextExport p))
     else
       (case Map_get (elementsLookup p) (qe_referencedName currentExport) of
          Some element \<Rightarrow>
           Some (setExportAndCheckLibrary exportName element
                   (em_externalName (qe_member currentExport)) p)
        | None \<Rightarrow>
           (case Map_get (elementsLookup p) (id_text (em_name (qe_member currentExport))) of
              Some element \<Rightarrow>
               Some (setExportAndCheckLibrary exportName element
                       (em_externalName (qe_member currentExport)) p)
            | None \<Rightarrow>
               Some (error Cannot_find_name_0 [id_text (em_name (qe_member queuedExport))] p))))"

fun resolveQueuedExports_loop ::
  "(string, QueuedExport) Map \<Rightarrow> (string \<times> QueuedExport) list \<Rightarrow> Program \<Rightarrow> Program option" where
  "resolveQueuedExports_loop queuedExports [] p = Some p"
| "resolveQueuedExports_loop queuedExports ((exportName, queuedExport) # rest) p =
    (case resolveQueuedExport queuedExports exportName queuedExport queuedExport p of
       None \<Rightarrow> None
     | Some p1 \<Rightarrow> resolveQueuedExports_loop queuedExports rest p1)"

definition resolveQueuedExports :: "(string, QueuedExport) Map \<Rightarrow> Program \<Rightarrow> Program option" where
  "resolveQueuedExports queuedExports p = resolveQueuedExports_loop queuedExports queuedExports p"

subsection \<open>The resolver\<close>

text \<open>
  \<open>resolveType\<close>, \<open>ClassPrototype.resolve\<close> and \<open>FunctionPrototype.resolve\<close> call one
  another, and a program can make them recurse without end (a class that extends
  itself). Each call of one of the three spends one unit of fuel; a \<open>Resolver\<close> holds
  the three methods at the fuel that is left, and each body below takes the resolver
  for its calls. At fuel zero a call ends with \<open>OutOfFuel\<close>.

  A call returns the value and the program it leaves, or an \<open>Error\<close>; \<open>None\<close> as a
  value is the source's \<open>null\<close>.
\<close>

type_synonym TypeArguments = "(string, Type) Map"
type_synonym 'a Outcome = "Error + 'a \<times> Program"

record Resolver =
  rec_resolveType ::
    "CommonTypeNode \<Rightarrow> TypeArguments option \<Rightarrow> bool \<Rightarrow> Program \<Rightarrow> Type option Outcome"
  rec_ClassPrototype_resolve ::
    "handle \<Rightarrow> Type list option \<Rightarrow> TypeArguments option \<Rightarrow> Program \<Rightarrow> handle option Outcome"
  rec_FunctionPrototype_resolve ::
    "handle \<Rightarrow> Type list option \<Rightarrow> TypeArguments option \<Rightarrow> Program \<Rightarrow> handle option Outcome"

definition andThen :: "'a Outcome \<Rightarrow> ('a \<Rightarrow> Program \<Rightarrow> 'b Outcome) \<Rightarrow> 'b Outcome" where
  "andThen r f = (case r of Inl err \<Rightarrow> Inl err | Inr (x, p) \<Rightarrow> f x p)"

text \<open>
  \<open>resolveSignature\<close> (lines 1611-1671): the loop over the parameters, with the
  signature under construction as accumulator, then the function.
\<close>

fun resolveSignature_parameters ::
  "Resolver \<Rightarrow> ParameterNode list \<Rightarrow> nat \<Rightarrow> nat \<Rightarrow> TypeArguments option \<Rightarrow> bool
    \<Rightarrow> Type list \<Rightarrow> string list \<Rightarrow> nat \<Rightarrow> bool \<Rightarrow> Program
    \<Rightarrow> (Type list \<times> string list \<times> nat \<times> bool) option Outcome" where
  "resolveSignature_parameters rec [] i numParameters ctx reportNotFound
      types names required rest p = Inr (Some (types, names, required, rest), p)"
| "resolveSignature_parameters rec (ParameterNode name typeNode parameterKind # nodes)
      i numParameters ctx reportNotFound types names required rest p =
    (if parameterKind = ParameterKind_REST \<and> i \<noteq> numParameters then Inl AssertionFailed
     else
       (let required1 = (if parameterKind = ParameterKind_DEFAULT then i + 1 else required);
            rest1 = (if parameterKind = ParameterKind_REST then True else rest)
        in case typeNode of
             None \<Rightarrow> Inl AssertionFailed
           | Some node \<Rightarrow>
              andThen (rec_resolveType rec node ctx reportNotFound p)
                (\<lambda>parameterType p1.
                   case parameterType of
                     None \<Rightarrow> Inr (None, p1)
                   | Some t \<Rightarrow>
                      resolveSignature_parameters rec nodes (i + 1) numParameters ctx
                        reportNotFound (types @ [t]) (names @ [name]) required1 rest1 p1)))"

definition resolveSignature_return ::
  "Resolver \<Rightarrow> SignatureNode \<Rightarrow> TypeArguments option \<Rightarrow> bool \<Rightarrow> Type option
    \<Rightarrow> Program \<Rightarrow> Signature option Outcome" where
  "resolveSignature_return rec node ctx reportNotFound thisT p =
    (case node of SignatureNode parameterTypeNodes returnTypeNode explicitThisType \<Rightarrow>
      andThen (resolveSignature_parameters rec parameterTypeNodes 0 (length parameterTypeNodes)
                 ctx reportNotFound [] [] 0 False p)
        (\<lambda>parameters p1.
           case parameters of
             None \<Rightarrow> Inr (None, p1)
           | Some (types, names, required, rest) \<Rightarrow>
              (case returnTypeNode of
                 Some node \<Rightarrow>
                  andThen (rec_resolveType rec node ctx reportNotFound p1)
                    (\<lambda>returnT p2.
                       case returnT of
                         None \<Rightarrow> Inr (None, p2)
                       | Some t \<Rightarrow> Inr (Some (Signature types names required rest t thisT), p2))
               | None \<Rightarrow> Inr (Some (Signature types names required rest Type_void thisT), p1))))"

definition resolveSignature_body ::
  "Resolver \<Rightarrow> SignatureNode \<Rightarrow> TypeArguments option \<Rightarrow> bool \<Rightarrow> Program
    \<Rightarrow> Signature option Outcome" where
  "resolveSignature_body rec node ctx reportNotFound p =
    (case node of SignatureNode parameterTypeNodes returnTypeNode explicitThisType \<Rightarrow>
      (case explicitThisType of
         Some thisNode \<Rightarrow>
          andThen (rec_resolveType rec thisNode ctx reportNotFound p)
            (\<lambda>thisT p1.
               case thisT of
                 None \<Rightarrow> Inr (None, p1)
               | Some t \<Rightarrow> resolveSignature_return rec node ctx reportNotFound (Some t) p1)
       | None \<Rightarrow> resolveSignature_return rec node ctx reportNotFound None p))"

text \<open>
  \<open>resolveTypeArguments\<close> (lines 1752-1790). \<open>resolveTypes\<close> is its loop, which
  \<open>resolveType\<close> runs over the type arguments of a node as well (lines 1713-1721).
\<close>

fun resolveTypes ::
  "Resolver \<Rightarrow> CommonTypeNode list \<Rightarrow> TypeArguments option \<Rightarrow> bool \<Rightarrow> Type list \<Rightarrow> Program
    \<Rightarrow> Type list option Outcome" where
  "resolveTypes rec [] ctx reportNotFound types p = Inr (Some types, p)"
| "resolveTypes rec (node # nodes) ctx reportNotFound types p =
    andThen (rec_resolveType rec node ctx reportNotFound p)
      (\<lambda>t p1.
         case t of
           None \<Rightarrow> Inr (None, p1)
         | Some t1 \<Rightarrow> resolveTypes rec nodes ctx reportNotFound (types @ [t1]) p1)"

definition resolveTypeArguments_body ::
  "Resolver \<Rightarrow> string list \<Rightarrow> CommonTypeNode list option \<Rightarrow> TypeArguments option
    \<Rightarrow> NodeKind option \<Rightarrow> Program \<Rightarrow> Type list option Outcome" where
  "resolveTypeArguments_body rec typeParameters typeArgumentNodes ctx alternativeReportNode p =
    (let parameterCount = length typeParameters;
         argumentCount = (case typeArgumentNodes of None \<Rightarrow> 0 | Some nodes \<Rightarrow> length nodes)
     in if parameterCount \<noteq> argumentCount then
          (if argumentCount \<noteq> 0 then
             Inr (None, error Expected_0_type_arguments_but_got_1
                          [toString10 parameterCount, toString10 argumentCount] p)
           else if alternativeReportNode \<noteq> None then
             Inr (None, error Expected_0_type_arguments_but_got_1
                          [toString10 parameterCount, ''0''] p)
           else Inr (None, p))
        else
          resolveTypes rec (case typeArgumentNodes of None \<Rightarrow> [] | Some nodes \<Rightarrow> nodes)
            ctx True [] p)"

text \<open>\<open>ClassPrototype.resolveUsingTypeArguments\<close> (lines 3313-3332).\<close>

definition ClassPrototype_resolveUsingTypeArguments_body ::
  "Resolver \<Rightarrow> handle \<Rightarrow> CommonTypeNode list option \<Rightarrow> TypeArguments option
    \<Rightarrow> NodeKind option \<Rightarrow> Program \<Rightarrow> handle option Outcome" where
  "ClassPrototype_resolveUsingTypeArguments_body rec this typeArgumentNodes ctx
      alternativeReportNode p =
    (case (deref p this, classPrototypeOf p this) of
       (Some e, Some d) \<Rightarrow>
        if is_flag e CommonFlags_GENERIC then
          (if typeArgumentNodes = None \<or> typeArgumentNodes = Some [] then Inl AssertionFailed
           else
             andThen (resolveTypeArguments_body rec (cd_typeParameters (cp_declaration d))
                        typeArgumentNodes ctx alternativeReportNode p)
               (\<lambda>resolvedTypeArguments p1.
                  case resolvedTypeArguments of
                    None \<Rightarrow> Inr (None, p1)
                  | Some ts \<Rightarrow> rec_ClassPrototype_resolve rec this (Some ts) ctx p1))
        else if typeArgumentNodes = None \<or> typeArgumentNodes = Some [] then
          rec_ClassPrototype_resolve rec this None ctx p
        else Inl AssertionFailed
     | _ \<Rightarrow> Inl BadReference)"

text \<open>\<open>resolveType\<close> (lines 1674-1749).\<close>

definition lookupType :: "string \<Rightarrow> string \<Rightarrow> bool \<Rightarrow> Program \<Rightarrow> Type option Outcome" where
  "lookupType localName globalName reportNotFound p =
    (case Map_get (typesLookup p) localName of
       Some t \<Rightarrow> Inr (Some t, p)
     | None \<Rightarrow>
        (case Map_get (typesLookup p) globalName of
           Some t \<Rightarrow> Inr (Some t, p)
         | None \<Rightarrow>
            if reportNotFound then Inr (None, error Cannot_find_name_0 [globalName] p)
            else Inr (None, p)))"

definition resolveType_parameters ::
  "Resolver \<Rightarrow> string \<Rightarrow> CommonTypeNode list option \<Rightarrow> Source \<Rightarrow> TypeArguments option \<Rightarrow> bool
    \<Rightarrow> Program \<Rightarrow> Type option Outcome" where
  "resolveType_parameters rec typeName typeArguments source ctx reportNotFound p =
    (let globalName = typeName;
         localName = internalPath source @ PATH_DELIMITER @ typeName
     in case typeArguments of
          None \<Rightarrow> lookupType localName globalName reportNotFound p
        | Some nodes \<Rightarrow>
           andThen (resolveTypes rec nodes ctx reportNotFound [] p)
             (\<lambda>paramTypes p1.
                case paramTypes of
                  None \<Rightarrow> Inr (None, p1)
                | Some ts \<Rightarrow>
                   if length nodes \<noteq> 0 then
                     (let instanceKey = typesToString p1 ts
                      in if length instanceKey \<noteq> 0 then
                           lookupType (localName @ ''<'' @ instanceKey @ ''>'')
                             (globalName @ ''<'' @ instanceKey @ ''>'') reportNotFound p1
                         else lookupType localName globalName reportNotFound p1)
                   else
                     (case ctx of
                        Some m \<Rightarrow>
                         (case Map_get m globalName of
                            Some placeholderType \<Rightarrow> Inr (Some placeholderType, p1)
                          | None \<Rightarrow> lookupType localName globalName reportNotFound p1)
                      | None \<Rightarrow> lookupType localName globalName reportNotFound p1)))"

definition resolveType_body ::
  "Resolver \<Rightarrow> CommonTypeNode \<Rightarrow> TypeArguments option \<Rightarrow> bool \<Rightarrow> Program \<Rightarrow> Type option Outcome" where
  "resolveType_body rec node ctx reportNotFound p =
    (case node of
       SignatureTypeNode signatureNode \<Rightarrow>
        andThen (resolveSignature_body rec signatureNode ctx reportNotFound p)
          (\<lambda>signature p1.
             case signature of
               None \<Rightarrow> Inr (None, p1)
             | Some sg \<Rightarrow> Inr (Some (asFunction Type_u32 sg), p1))
     | TypeNode typeName typeArguments source \<Rightarrow>
        (let globalName = typeName;
             localName = internalPath source @ PATH_DELIMITER @ typeName;
             element = (case Map_get (elementsLookup p) localName of
                          Some h \<Rightarrow> Some h
                        | None \<Rightarrow> Map_get (elementsLookup p) globalName);
             classPrototype =
               (case element of
                  None \<Rightarrow> None
                | Some h \<Rightarrow>
                   if map_option kind (deref p h) = Some ElementKind_CLASS_PROTOTYPE
                   then Some h else None)
         in case classPrototype of
              Some prototype \<Rightarrow>
               andThen (ClassPrototype_resolveUsingTypeArguments_body rec prototype
                          typeArguments ctx None p)
                 (\<lambda>instance p1.
                    case instance of
                      None \<Rightarrow> Inr (None, p1)
                    | Some c \<Rightarrow>
                       (case classOf p1 c of
                          None \<Rightarrow> Inl BadReference
                        | Some cd \<Rightarrow> Inr (Some (c_type cd), p1)))
            | None \<Rightarrow>
               (case Map_get (typeAliases p) typeName of
                  Some alias \<Rightarrow> rec_resolveType rec (ta_type alias) ctx reportNotFound p
                | None \<Rightarrow>
                   resolveType_parameters rec typeName typeArguments source ctx
                     reportNotFound p)))"

text \<open>
  Copying a map entry by entry (lines 3127-3131 and 2555-2562), and binding type
  parameters to type arguments in a map (lines 3167-3169, 2572-2577 and 2588-2593).
\<close>

definition Map_copy :: "('k, 'v) Map \<Rightarrow> ('k, 'v) Map" where
  "Map_copy m = foldl (\<lambda>acc (k, v). Map_set acc k v) [] m"

fun bindTypeParameters :: "TypeArguments \<Rightarrow> string list \<Rightarrow> Type list \<Rightarrow> TypeArguments" where
  "bindTypeParameters m (n # ns) (t # ts) = bindTypeParameters (Map_set m n t) ns ts"
| "bindTypeParameters m _ _ = m"

text \<open>
  The constructor of \<open>Class\<close> (lines 3362-3407); \<open>self\<close> is the handle the new object
  gets.
\<close>

definition new_Class ::
  "Program \<Rightarrow> handle \<Rightarrow> handle \<Rightarrow> string \<Rightarrow> string \<Rightarrow> Type list option \<Rightarrow> handle option
    \<Rightarrow> Error + Element" where
  "new_Class p self prototype name iname typeArguments base =
    (case (deref p prototype, classPrototypeOf p prototype) of
       (Some pe, Some pd) \<Rightarrow>
        (let inherited =
               (case base of
                  None \<Rightarrow> None
                | Some b \<Rightarrow>
                   (case classOf p b of
                      None \<Rightarrow> None
                    | Some bd \<Rightarrow> map_option Map_copy (c_contextualTypeArguments bd)));
             typeParameters = cd_typeParameters (cp_declaration pd);
             mismatch =
               (case typeArguments of
                  Some ts \<Rightarrow> length ts \<noteq> length typeParameters
                | None \<Rightarrow> length typeParameters \<noteq> 0);
             contextual =
               (case typeArguments of
                  Some ts \<Rightarrow>
                   if length ts \<noteq> 0
                   then Some (bindTypeParameters
                                (case inherited of None \<Rightarrow> [] | Some m \<Rightarrow> m) typeParameters ts)
                   else inherited
                | None \<Rightarrow> inherited)
         in if mismatch then Inl (Thrown ''type argument count mismatch'')
            else Inr
              \<lparr>kind = ElementKind_CLASS, simpleName = name, internalName = iname,
               flags = flags pe, decoratorFlags = decoratorFlags pe, members = None,
               namespace = None,
               payload = ClassData
                 \<lparr>c_prototype = prototype, c_typeArguments = typeArguments,
                  c_type = asClass (usizeType p) self, c_base = base,
                  c_contextualTypeArguments = contextual, c_currentMemoryOffset = 0,
                  c_constructorInstance = None, c_overloads = None\<rparr>\<rparr>)
     | _ \<Rightarrow> Inl BadReference)"

text \<open>\<open>FunctionPrototype.resolvePartial\<close> (lines 2658-2678).\<close>

definition resolvePartial :: "handle \<Rightarrow> Type list option \<Rightarrow> Program \<Rightarrow> handle option Outcome" where
  "resolvePartial this classTypeArguments p =
    (case (deref p this, functionPrototypeOf p this) of
       (Some e, Some d) \<Rightarrow>
        if \<not> is_flag e CommonFlags_INSTANCE then Inl AssertionFailed
        else
          (case fp_classPrototype d of
             None \<Rightarrow> Inl AssertionFailed
           | Some classPrototype \<Rightarrow>
              (case classTypeArguments of
                 None \<Rightarrow> Inr (Some this, p)
               | Some ts \<Rightarrow>
                  if length ts = 0 then Inr (Some this, p)
                  else
                    (case deref p classPrototype of
                       None \<Rightarrow> Inl BadReference
                     | Some cpe \<Rightarrow>
                        (let partialKey = typesToString p ts;
                             partialPrototype =
                               (new_FunctionPrototype (simpleName e)
                                  (internalName cpe @ ''<'' @ partialKey @ ''>''
                                     @ INSTANCE_DELIMITER @ simpleName e)
                                  (fp_declaration d) (Some classPrototype) (decoratorFlags e))
                               \<lparr>flags := flags e,
                                payload := FunctionPrototypeData
                                  \<lparr>fp_declaration = fp_declaration d,
                                   fp_classPrototype = Some classPrototype,
                                   fp_instances = [],
                                   fp_classTypeArguments = Some ts,
                                   fp_operatorKind = fp_operatorKind d\<rparr>\<rparr>;
                             (h, p1) = alloc partialPrototype p
                         in Inr (Some h, p1)))))
     | _ \<Rightarrow> Inl BadReference)"

text \<open>
  The alignment of a field in \<open>ClassPrototype.resolve\<close> (lines 3224-3241):
  \<open>memoryOffset\<close> is a \<open>u32\<close>. \<open>alignMemoryOffset\<close> is the \<open>switch\<close>; \<open>layoutField\<close>
  gives the offset assigned to the field and the running offset after it.
\<close>

definition alignMemoryOffset :: "32 word \<Rightarrow> nat \<Rightarrow> Error + 32 word" where
  "alignMemoryOffset memoryOffset bytes =
    (if bytes = 1 then Inr memoryOffset
     else if bytes = 2 then
       Inr (if (memoryOffset AND 1) \<noteq> 0 then memoryOffset + 1 else memoryOffset)
     else if bytes = 4 then
       Inr (if (memoryOffset AND 3) \<noteq> 0 then (memoryOffset OR 3) + 1 else memoryOffset)
     else if bytes = 8 then
       Inr (if (memoryOffset AND 7) \<noteq> 0 then (memoryOffset OR 7) + 1 else memoryOffset)
     else Inl AssertionFailed)"

definition layoutField :: "32 word \<Rightarrow> nat \<Rightarrow> Error + 32 word \<times> 32 word" where
  "layoutField memoryOffset bytes =
    (case alignMemoryOffset memoryOffset bytes of
       Inl err \<Rightarrow> Inl err
     | Inr aligned \<Rightarrow> Inr (aligned, aligned + of_nat bytes))"

definition new_Field :: "Element \<Rightarrow> handle \<Rightarrow> string \<Rightarrow> Type \<Rightarrow> FieldDeclaration \<Rightarrow> Element" where
  "new_Field pe prototype iname t decl =
    \<lparr>kind = ElementKind_FIELD, simpleName = simpleName pe, internalName = iname,
     flags = flags pe, decoratorFlags = DecoratorFlags_NONE, members = None, namespace = None,
     payload = FieldData
       \<lparr>fi_prototype = prototype, fi_type = t, fi_declaration = decl, fi_memoryOffset = - 1\<rparr>\<rparr>"

definition updateField :: "handle \<Rightarrow> (Field \<Rightarrow> Field) \<Rightarrow> Program \<Rightarrow> Program" where
  "updateField h f p =
    update h (\<lambda>e. case payload e of
                     FieldData d \<Rightarrow> e\<lparr>payload := FieldData (f d)\<rparr>
                   | _ \<Rightarrow> e) p"

definition ensureMembers :: "handle \<Rightarrow> Program \<Rightarrow> Program" where
  "ensureMembers h p =
    update h (\<lambda>e. e\<lparr>members := Some (case members e of None \<Rightarrow> [] | Some m \<Rightarrow> m)\<rparr>) p"

text \<open>
  \<open>ClassPrototype.resolve\<close> (lines 3116-3310), in the order of the source: the base
  class (lines 3133-3159), the three loops that follow the insertion into the cache
  (the constructor, the instance members, the operator overloads), and the function.
\<close>

definition ClassPrototype_resolve_base ::
  "Resolver \<Rightarrow> handle \<Rightarrow> ClassDeclaration \<Rightarrow> Program \<Rightarrow> handle option option Outcome" where
  "ClassPrototype_resolve_base rec this decl p =
    (case cd_extendsType decl of
       None \<Rightarrow> Inr (Some None, p)
     | Some extendsType \<Rightarrow>
        andThen (rec_resolveType rec extendsType None True p)
          (\<lambda>baseClassType p1.
             case baseClassType of
               None \<Rightarrow> Inr (None, p1)
             | Some t \<Rightarrow>
                (case classReference t of
                   None \<Rightarrow> Inr (None, error A_class_may_only_extend_another_class [] p1)
                 | Some baseClass \<Rightarrow>
                    (case (deref p1 baseClass, deref p1 this) of
                       (Some be, Some e) \<Rightarrow>
                        if hasDecorator be DecoratorFlags_SEALED then
                          Inr (None, error Class_0_is_sealed_and_cannot_be_extended
                                       [internalName be] p1)
                        else if hasDecorator be DecoratorFlags_UNMANAGED
                                \<noteq> hasDecorator e DecoratorFlags_UNMANAGED then
                          Inr (None, error
                            Unmanaged_classes_cannot_extend_managed_classes_and_vice_versa [] p1)
                        else Inr (Some (Some baseClass), p1)
                     | _ \<Rightarrow> Inl BadReference))))"

fun inheritMembers :: "handle list \<Rightarrow> handle \<Rightarrow> Program \<Rightarrow> Program" where
  "inheritMembers [] instance p = p"
| "inheritMembers (inheritedMember # rest) instance p =
    (case deref p inheritedMember of
       None \<Rightarrow> inheritMembers rest instance p
     | Some me \<Rightarrow> inheritMembers rest instance (setMember instance (simpleName me) inheritedMember p))"

definition ClassPrototype_resolve_constructor ::
  "Resolver \<Rightarrow> ClassPrototype \<Rightarrow> handle \<Rightarrow> Type list option \<Rightarrow> Program \<Rightarrow> unit Outcome" where
  "ClassPrototype_resolve_constructor rec d instance typeArguments p =
    (case cp_constructorPrototype d of
       None \<Rightarrow> Inr ((), p)
     | Some constructorPrototype \<Rightarrow>
        andThen (resolvePartial constructorPrototype typeArguments p)
          (\<lambda>partialConstructor p1.
             case partialConstructor of
               None \<Rightarrow> Inr ((), p1)
             | Some pc \<Rightarrow>
                andThen (rec_FunctionPrototype_resolve rec pc None None p1)
                  (\<lambda>constructorInstance p2.
                     Inr ((), updateClass instance
                                (\<lambda>c. c\<lparr>c_constructorInstance := constructorInstance\<rparr>) p2))))"

text \<open>
  One instance member (the body of the loop of lines 3203-3288). The value is the
  running \<open>memoryOffset\<close>, or \<open>None\<close> where the source leaves \<open>resolve\<close> with \<open>null\<close>.
\<close>

definition ClassPrototype_resolve_member ::
  "Resolver \<Rightarrow> handle \<Rightarrow> handle \<Rightarrow> string \<Rightarrow> Type list option \<Rightarrow> handle \<Rightarrow> 32 word
    \<Rightarrow> Program \<Rightarrow> 32 word option Outcome" where
  "ClassPrototype_resolve_member rec this instance iname typeArguments member memoryOffset p =
    (case deref p member of
       None \<Rightarrow> Inl BadReference
     | Some me \<Rightarrow>
        (case payload me of
           FieldPrototypeData fd \<Rightarrow>
            (let p1 = ensureMembers instance p;
                 fieldDeclaration = fpr_declaration fd
             in case fd_type fieldDeclaration of
                  None \<Rightarrow> Inl (Thrown ''type expected'')
                | Some typeNode \<Rightarrow>
                   (case classOf p1 instance of
                      None \<Rightarrow> Inl BadReference
                    | Some c \<Rightarrow>
                       andThen (rec_resolveType rec typeNode (c_contextualTypeArguments c) True p1)
                         (\<lambda>fieldType p2.
                            case fieldType of
                              None \<Rightarrow> Inr (Some memoryOffset, p2)
                            | Some t \<Rightarrow>
                               (let (fieldInstance, p3) =
                                      alloc (new_Field me member
                                               (iname @ INSTANCE_DELIMITER @ simpleName me)
                                               t fieldDeclaration) p2
                                in case layoutField memoryOffset (byteSize t) of
                                     Inl err \<Rightarrow> Inl err
                                   | Inr (aligned, next) \<Rightarrow>
                                      Inr (Some next,
                                           setMember instance (simpleName me) fieldInstance
                                             (updateField fieldInstance
                                                (\<lambda>f. f\<lparr>fi_memoryOffset := aligned\<rparr>) p3))))))
         | FunctionPrototypeData fd \<Rightarrow>
            (let p1 = ensureMembers instance p
             in andThen (resolvePartial member typeArguments p1)
                  (\<lambda>partialPrototype p2.
                     case partialPrototype of
                       None \<Rightarrow> Inr (Some memoryOffset, p2)
                     | Some pp \<Rightarrow>
                        (let p3 = update pp (\<lambda>e. e\<lparr>internalName :=
                                    iname @ INSTANCE_DELIMITER @ simpleName e\<rparr>) p2
                         in Inr (Some memoryOffset, setMember instance (simpleName me) pp p3))))
         | PropertyData pd \<Rightarrow>
            (let p1 = ensureMembers instance p
             in case pr_getterPrototype pd of
                  None \<Rightarrow> Inl AssertionFailed
                | Some getterPrototype \<Rightarrow>
                   (let (instanceProperty, p2) =
                          alloc (new_Property (simpleName me)
                                   (iname @ INSTANCE_DELIMITER @ simpleName me) this) p1
                    in andThen (resolvePartial getterPrototype typeArguments p2)
                         (\<lambda>partialGetterPrototype p3.
                            case partialGetterPrototype of
                              None \<Rightarrow> Inr (None, p3)
                            | Some pg \<Rightarrow>
                               (let p4 = update pg (\<lambda>e. e\<lparr>internalName :=
                                           iname @ INSTANCE_DELIMITER @ simpleName e\<rparr>) p3;
                                    p5 = updateProperty instanceProperty
                                           (\<lambda>d. d\<lparr>pr_getterPrototype := Some pg\<rparr>) p4
                                in case pr_setterPrototype pd of
                                     None \<Rightarrow>
                                      Inr (Some memoryOffset,
                                           setMember instance (simpleName me) instanceProperty p5)
                                   | Some setterPrototype \<Rightarrow>
                                      andThen (resolvePartial setterPrototype typeArguments p5)
                                        (\<lambda>partialSetterPrototype p6.
                                           case partialSetterPrototype of
                                             None \<Rightarrow> Inr (None, p6)
                                           | Some ps \<Rightarrow>
                                              (let p7 = update ps (\<lambda>e. e\<lparr>internalName :=
                                                          iname @ INSTANCE_DELIMITER @ simpleName e\<rparr>) p6;
                                                   p8 = updateProperty instanceProperty
                                                          (\<lambda>d. d\<lparr>pr_setterPrototype := Some ps\<rparr>) p7
                                               in Inr (Some memoryOffset,
                                                       setMember instance (simpleName me)
                                                         instanceProperty p8)))))))
         | _ \<Rightarrow> Inl AssertionFailed))"

fun ClassPrototype_resolve_members ::
  "Resolver \<Rightarrow> handle \<Rightarrow> handle \<Rightarrow> string \<Rightarrow> Type list option \<Rightarrow> handle list \<Rightarrow> 32 word
    \<Rightarrow> Program \<Rightarrow> 32 word option Outcome" where
  "ClassPrototype_resolve_members rec this instance iname typeArguments [] memoryOffset p =
    Inr (Some memoryOffset, p)"
| "ClassPrototype_resolve_members rec this instance iname typeArguments (member # rest)
      memoryOffset p =
    andThen (ClassPrototype_resolve_member rec this instance iname typeArguments member
               memoryOffset p)
      (\<lambda>next p1.
         case next of
           None \<Rightarrow> Inr (None, p1)
         | Some memoryOffset1 \<Rightarrow>
            ClassPrototype_resolve_members rec this instance iname typeArguments rest
              memoryOffset1 p1)"

text \<open>The operator overloads (lines 3291-3306).\<close>

definition setOverload :: "handle \<Rightarrow> OperatorKind \<Rightarrow> handle \<Rightarrow> Program \<Rightarrow> Program" where
  "setOverload instance operatorKind operatorInstance p =
    updateClass instance (\<lambda>c. c\<lparr>c_overloads :=
      Some (Map_set (case c_overloads c of None \<Rightarrow> [] | Some m \<Rightarrow> m)
              operatorKind operatorInstance)\<rparr>) p"

fun ClassPrototype_resolve_overloads ::
  "Resolver \<Rightarrow> handle \<Rightarrow> Type list option \<Rightarrow> (OperatorKind \<times> handle) list \<Rightarrow> Program
    \<Rightarrow> unit Outcome" where
  "ClassPrototype_resolve_overloads rec instance typeArguments [] p = Inr ((), p)"
| "ClassPrototype_resolve_overloads rec instance typeArguments ((operatorKind, prototype) # rest) p =
    (if operatorKind = OperatorKind_INVALID then Inl AssertionFailed
     else
       (case deref p prototype of
          None \<Rightarrow> Inl BadReference
        | Some pe \<Rightarrow>
           andThen
             (if is_flag pe CommonFlags_INSTANCE then
                andThen (resolvePartial prototype typeArguments p)
                  (\<lambda>operatorPartial p1.
                     case operatorPartial of
                       None \<Rightarrow> Inr (None, p1)
                     | Some op \<Rightarrow> rec_FunctionPrototype_resolve rec op None None p1)
              else rec_FunctionPrototype_resolve rec prototype None None p)
             (\<lambda>operatorInstance p2.
                ClassPrototype_resolve_overloads rec instance typeArguments rest
                  (case operatorInstance of
                     None \<Rightarrow> p2
                   | Some oi \<Rightarrow> setOverload instance operatorKind oi p2))))"

text \<open>
  What \<open>resolve\<close> does once the instance is in the cache (lines 3184-3309); \<open>d\<close> is the
  prototype, whose constructor, instance members and overloads no resolution changes.
\<close>

definition ClassPrototype_resolve_rest ::
  "Resolver \<Rightarrow> handle \<Rightarrow> ClassPrototype \<Rightarrow> handle \<Rightarrow> string \<Rightarrow> Type list option
    \<Rightarrow> handle option \<Rightarrow> Program \<Rightarrow> handle option Outcome" where
  "ClassPrototype_resolve_rest rec this d instance iname typeArguments baseClass p =
    (let (memoryOffset0, p1) =
           (case baseClass of
              None \<Rightarrow> (0, p)
            | Some b \<Rightarrow>
               (case (deref p b, classOf p b) of
                  (Some be, Some bd) \<Rightarrow>
                   (c_currentMemoryOffset bd,
                    (case members be of
                       None \<Rightarrow> p
                     | Some ms \<Rightarrow> inheritMembers (Map_values ms) instance (ensureMembers instance p)))
                | _ \<Rightarrow> (0, p)))
     in andThen (ClassPrototype_resolve_constructor rec d instance typeArguments p1)
          (\<lambda>_ p2.
             andThen (ClassPrototype_resolve_members rec this instance iname typeArguments
                        (case cp_instanceMembers d of None \<Rightarrow> [] | Some ms \<Rightarrow> Map_values ms)
                        memoryOffset0 p2)
               (\<lambda>next p3.
                  case next of
                    None \<Rightarrow> Inr (None, p3)
                  | Some memoryOffset \<Rightarrow>
                     andThen (ClassPrototype_resolve_overloads rec instance typeArguments
                                (cp_overloadPrototypes d) p3)
                       (\<lambda>_ p4.
                          Inr (Some instance,
                               updateClass instance
                                 (\<lambda>c. c\<lparr>c_currentMemoryOffset := memoryOffset\<rparr>) p4)))))"

text \<open>
  Lines 3161-3182: the type arguments are bound, the instance is constructed and set
  in \<open>instances\<close> under its key; then the rest.
\<close>

definition ClassPrototype_resolve_instance ::
  "Resolver \<Rightarrow> handle \<Rightarrow> Type list option \<Rightarrow> string \<Rightarrow> TypeArguments \<Rightarrow> handle option
    \<Rightarrow> Program \<Rightarrow> handle option Outcome" where
  "ClassPrototype_resolve_instance rec this typeArguments instanceKey contextual0 baseClass p =
    (case (deref p this, classPrototypeOf p this) of
       (Some e, Some d) \<Rightarrow>
        (let typeParameters = cd_typeParameters (cp_declaration d);
             mismatch =
               (case typeArguments of
                  Some ts \<Rightarrow> length ts \<noteq> length typeParameters
                | None \<Rightarrow> length typeParameters \<noteq> 0);
             contextual =
               (case typeArguments of
                  Some ts \<Rightarrow> bindTypeParameters contextual0 typeParameters ts
                | None \<Rightarrow> contextual0);
             suffix = (if length instanceKey \<noteq> 0 then ''<'' @ instanceKey @ ''>'' else []);
             name = simpleName e @ suffix;
             iname = internalName e @ suffix;
             instance = length (elements p)
         in if mismatch then Inl (Thrown ''type argument count mismatch'')
            else
              (case new_Class p instance this name iname typeArguments baseClass of
                 Inl err \<Rightarrow> Inl err
               | Inr ce \<Rightarrow>
                  (let (h, p1) = alloc ce p;
                       p2 = updateClass instance
                              (\<lambda>c. c\<lparr>c_contextualTypeArguments := Some contextual\<rparr>) p1;
                       p3 = updateClassPrototype this
                              (\<lambda>d. d\<lparr>cp_instances := Map_set (cp_instances d) instanceKey instance\<rparr>)
                              p2
                   in ClassPrototype_resolve_rest rec this d instance iname typeArguments
                        baseClass p3)))
     | _ \<Rightarrow> Inl BadReference)"

definition ClassPrototype_resolve_body ::
  "Resolver \<Rightarrow> handle \<Rightarrow> Type list option \<Rightarrow> TypeArguments option \<Rightarrow> Program
    \<Rightarrow> handle option Outcome" where
  "ClassPrototype_resolve_body rec this typeArguments ctx p =
    (case classPrototypeOf p this of
       None \<Rightarrow> Inl BadReference
     | Some d \<Rightarrow>
        (let instanceKey = (case typeArguments of Some ts \<Rightarrow> typesToString p ts | None \<Rightarrow> [])
         in case Map_get (cp_instances d) instanceKey of
              Some instance \<Rightarrow> Inr (Some instance, p)
            | None \<Rightarrow>
               (let contextual = (case ctx of None \<Rightarrow> [] | Some m \<Rightarrow> Map_copy m)
                in andThen (ClassPrototype_resolve_base rec this (cp_declaration d) p)
                     (\<lambda>base p1.
                        case base of
                          None \<Rightarrow> Inr (None, p1)
                        | Some baseClass \<Rightarrow>
                           ClassPrototype_resolve_instance rec this typeArguments instanceKey
                             contextual baseClass p1))))"

text \<open>
  The constructor of \<open>Function\<close> (lines 2763-2819). The flow of the function
  (\<open>Flow.create\<close>) and what the compiler adds to a function later are left out.
\<close>

fun parameterLocals ::
  "string list \<Rightarrow> Type list \<Rightarrow> nat \<Rightarrow> (string, Local) Map \<Rightarrow> (string, Local) Map" where
  "parameterLocals (n # ns) (t # ts) localIndex locals =
    parameterLocals ns ts (localIndex + 1)
      (Map_set locals n \<lparr>l_simpleName = n, l_index = localIndex, l_type = t\<rparr>)"
| "parameterLocals _ _ localIndex locals = locals"

fun inheritTypeArguments :: "(string \<times> Type) list \<Rightarrow> TypeArguments \<Rightarrow> TypeArguments" where
  "inheritTypeArguments [] m = m"
| "inheritTypeArguments ((inheritedName, inheritedType) # rest) m =
    inheritTypeArguments rest
      (if Map_has m inheritedName then m else Map_set m inheritedName inheritedType)"

definition new_Function ::
  "Program \<Rightarrow> handle \<Rightarrow> string \<Rightarrow> Signature \<Rightarrow> handle option \<Rightarrow> TypeArguments option
    \<Rightarrow> Error + Element" where
  "new_Function p prototype iname sg memberOf ctx =
    (case deref p prototype of
       None \<Rightarrow> Inl BadReference
     | Some pe \<Rightarrow>
        (let header =
               \<lparr>kind = ElementKind_FUNCTION, simpleName = simpleName pe, internalName = iname,
                flags = flags pe, decoratorFlags = decoratorFlags pe, members = None,
                namespace = None,
                payload = FunctionData
                  \<lparr>f_prototype = prototype, f_signature = sg, f_memberOf = memberOf,
                   f_locals = [], f_contextualTypeArguments = ctx\<rparr>\<rparr>;
             memberClass =
               (case memberOf of
                  None \<Rightarrow> None
                | Some m \<Rightarrow>
                   (case deref p m of
                      None \<Rightarrow> None
                    | Some me \<Rightarrow>
                       if kind me = ElementKind_CLASS
                       then (case payload me of ClassData cd \<Rightarrow> Some cd | _ \<Rightarrow> None)
                       else None))
         in if is_flag pe (CommonFlags_AMBIENT OR CommonFlags_BUILTIN)
               \<or> is_flag pe CommonFlags_DECLARE
            then Inr header
            else
              (case memberClass of
                 Some cd \<Rightarrow>
                  if \<not> is_flag pe CommonFlags_INSTANCE then Inl AssertionFailed
                  else
                    (case thisType sg of
                       None \<Rightarrow> Inl AssertionFailed
                     | Some thisT \<Rightarrow>
                        Inr (header\<lparr>payload := FunctionData
                          \<lparr>f_prototype = prototype, f_signature = sg, f_memberOf = memberOf,
                           f_locals =
                             parameterLocals (parameterNames sg) (parameterTypes sg) 1
                               [(''this'', \<lparr>l_simpleName = ''this'', l_index = 0, l_type = thisT\<rparr>)],
                           f_contextualTypeArguments =
                             (case c_contextualTypeArguments cd of
                                None \<Rightarrow> ctx
                              | Some inherited \<Rightarrow>
                                 Some (inheritTypeArguments inherited
                                         (case ctx of None \<Rightarrow> [] | Some m \<Rightarrow> m)))\<rparr>\<rparr>))
               | None \<Rightarrow>
                  if is_flag pe CommonFlags_INSTANCE then Inl AssertionFailed
                  else
                    Inr (header\<lparr>payload := FunctionData
                      \<lparr>f_prototype = prototype, f_signature = sg, f_memberOf = memberOf,
                       f_locals = parameterLocals (parameterNames sg) (parameterTypes sg) 0 [],
                       f_contextualTypeArguments = ctx\<rparr>\<rparr>))))"

text \<open>
  \<open>FunctionPrototype.resolve\<close> (lines 2540-2655): the contextual type arguments
  (lines 2552-2596), the loop over the parameters (lines 2614-2624), what follows the
  resolution of the class (lines 2608-2654), and the function.
\<close>

definition FunctionPrototype_resolve_contextual ::
  "Program \<Rightarrow> Element \<Rightarrow> FunctionPrototype \<Rightarrow> Type list option \<Rightarrow> TypeArguments option
    \<Rightarrow> Error + TypeArguments" where
  "FunctionPrototype_resolve_contextual p e d functionTypeArguments ctx =
    (let inherited = (case ctx of None \<Rightarrow> [] | Some m \<Rightarrow> Map_copy m);
         withClass =
           (case fp_classTypeArguments d of
              None \<Rightarrow> Inr inherited
            | Some classTypeArguments \<Rightarrow>
               if \<not> is_flag e CommonFlags_INSTANCE then Inl AssertionFailed
               else
                 (case fp_classPrototype d of
                    None \<Rightarrow> Inl AssertionFailed
                  | Some classPrototype \<Rightarrow>
                     (case classPrototypeOf p classPrototype of
                        None \<Rightarrow> Inl BadReference
                      | Some cpd \<Rightarrow>
                         (let classTypeParameters = cd_typeParameters (cp_declaration cpd)
                          in if length classTypeParameters \<noteq> length classTypeArguments
                             then Inl AssertionFailed
                             else Inr (bindTypeParameters inherited classTypeParameters
                                         classTypeArguments)))));
         functionTypeParameters = fn_typeParameters (fp_declaration d);
         numFunctionTypeArguments =
           (case functionTypeArguments of None \<Rightarrow> 0 | Some ts \<Rightarrow> length ts)
     in case withClass of
          Inl err \<Rightarrow> Inl err
        | Inr m \<Rightarrow>
           if numFunctionTypeArguments \<noteq> 0 then
             (case (functionTypeParameters, functionTypeArguments) of
                (Some tps, Some ts) \<Rightarrow>
                 if length ts = length tps then Inr (bindTypeParameters m tps ts)
                 else Inl AssertionFailed
              | _ \<Rightarrow> Inl AssertionFailed)
           else
             (case functionTypeParameters of
                None \<Rightarrow> Inr m
              | Some tps \<Rightarrow> if length tps = 0 then Inr m else Inl AssertionFailed))"

fun FunctionPrototype_resolve_parameters ::
  "Resolver \<Rightarrow> ParameterNode list \<Rightarrow> nat \<Rightarrow> TypeArguments \<Rightarrow> Type list \<Rightarrow> string list \<Rightarrow> nat
    \<Rightarrow> Program \<Rightarrow> (Type list \<times> string list \<times> nat) option Outcome" where
  "FunctionPrototype_resolve_parameters rec [] i contextual types names required p =
    Inr (Some (types, names, required), p)"
| "FunctionPrototype_resolve_parameters rec (ParameterNode name typeNode parameterKind # nodes)
      i contextual types names required p =
    (let required1 = (if parameterKind = ParameterKind_DEFAULT then i + 1 else required)
     in case typeNode of
          None \<Rightarrow> Inl AssertionFailed
        | Some node \<Rightarrow>
           andThen (rec_resolveType rec node (Some contextual) True p)
             (\<lambda>parameterType p1.
                case parameterType of
                  None \<Rightarrow> Inr (None, p1)
                | Some t \<Rightarrow>
                   FunctionPrototype_resolve_parameters rec nodes (i + 1) contextual
                     (types @ [t]) (names @ [name]) required1 p1))"

definition FunctionPrototype_resolve_create ::
  "handle \<Rightarrow> string \<Rightarrow> handle option \<Rightarrow> TypeArguments \<Rightarrow> Signature \<Rightarrow> Program
    \<Rightarrow> handle option Outcome" where
  "FunctionPrototype_resolve_create this instanceKey classInstance contextual sg p =
    (case (deref p this, functionPrototypeOf p this) of
       (Some e, Some d) \<Rightarrow>
        (let iname = internalName e
               @ (if length instanceKey \<noteq> 0 then ''<'' @ instanceKey @ ''>'' else [])
         in case new_Function p this iname sg
                   (case classInstance of Some c \<Rightarrow> Some c | None \<Rightarrow> fp_classPrototype d)
                   (Some contextual) of
              Inl err \<Rightarrow> Inl err
            | Inr fe \<Rightarrow>
               (let (instance, p1) = alloc fe p
                in Inr (Some instance,
                        updateFunctionPrototype this
                          (\<lambda>d. d\<lparr>fp_instances := Map_set (fp_instances d) instanceKey instance\<rparr>)
                          p1)))
     | _ \<Rightarrow> Inl BadReference)"

definition FunctionPrototype_resolve_signature ::
  "Resolver \<Rightarrow> handle \<Rightarrow> string \<Rightarrow> handle option \<Rightarrow> Type option \<Rightarrow> TypeArguments \<Rightarrow> Program
    \<Rightarrow> handle option Outcome" where
  "FunctionPrototype_resolve_signature rec this instanceKey classInstance thisT contextual p =
    (case (deref p this, functionPrototypeOf p this) of
       (Some e, Some d) \<Rightarrow>
        (case fn_signature (fp_declaration d) of
           SignatureNode signatureParameters returnTypeNode explicitThisType \<Rightarrow>
            andThen (FunctionPrototype_resolve_parameters rec signatureParameters 0 contextual
                       [] [] 0 p)
              (\<lambda>parameters p1.
                 case parameters of
                   None \<Rightarrow> Inr (None, p1)
                 | Some (types, names, required) \<Rightarrow>
                    if is_flag e CommonFlags_SET then
                      FunctionPrototype_resolve_create this instanceKey classInstance contextual
                        (Signature types names required False Type_void thisT) p1
                    else if is_flag e CommonFlags_CONSTRUCTOR then
                      (case classInstance of
                         None \<Rightarrow> Inl AssertionFailed
                       | Some c \<Rightarrow>
                          (case classOf p1 c of
                             None \<Rightarrow> Inl BadReference
                           | Some cd \<Rightarrow>
                              FunctionPrototype_resolve_create this instanceKey classInstance
                                contextual
                                (Signature types names required False (c_type cd) thisT) p1))
                    else
                      (case returnTypeNode of
                         None \<Rightarrow> Inl AssertionFailed
                       | Some typeNode \<Rightarrow>
                          andThen (rec_resolveType rec typeNode (Some contextual) True p1)
                            (\<lambda>t p2.
                               case t of
                                 None \<Rightarrow> Inr (None, p2)
                               | Some returnT \<Rightarrow>
                                  FunctionPrototype_resolve_create this instanceKey classInstance
                                    contextual
                                    (Signature types names required False returnT thisT) p2))))
     | _ \<Rightarrow> Inl BadReference)"

definition FunctionPrototype_resolve_body ::
  "Resolver \<Rightarrow> handle \<Rightarrow> Type list option \<Rightarrow> TypeArguments option \<Rightarrow> Program
    \<Rightarrow> handle option Outcome" where
  "FunctionPrototype_resolve_body rec this functionTypeArguments ctx p =
    (case (deref p this, functionPrototypeOf p this) of
       (Some e, Some d) \<Rightarrow>
        (let instanceKey =
               (case functionTypeArguments of Some ts \<Rightarrow> typesToString p ts | None \<Rightarrow> [])
         in case Map_get (fp_instances d) instanceKey of
              Some instance \<Rightarrow> Inr (Some instance, p)
            | None \<Rightarrow>
               (case FunctionPrototype_resolve_contextual p e d functionTypeArguments ctx of
                  Inl err \<Rightarrow> Inl err
                | Inr contextual \<Rightarrow>
                   if is_flag e CommonFlags_INSTANCE then
                     (case fp_classPrototype d of
                        None \<Rightarrow> Inl AssertionFailed
                      | Some classPrototype \<Rightarrow>
                         andThen (rec_ClassPrototype_resolve rec classPrototype
                                    (fp_classTypeArguments d) (Some contextual) p)
                           (\<lambda>classInstance p1.
                              case classInstance of
                                None \<Rightarrow> Inr (None, p1)
                              | Some c \<Rightarrow>
                                 (case classOf p1 c of
                                    None \<Rightarrow> Inl BadReference
                                  | Some cd \<Rightarrow>
                                     (let thisT = asThis (c_type cd)
                                      in FunctionPrototype_resolve_signature rec this instanceKey
                                           (Some c) (Some thisT)
                                           (Map_set contextual ''this'' thisT) p1))))
                   else
                     FunctionPrototype_resolve_signature rec this instanceKey None None
                       contextual p))
     | _ \<Rightarrow> Inl BadReference)"

text \<open>The three methods at each amount of fuel, and the functions of the source.\<close>

primrec resolver :: "nat \<Rightarrow> Resolver" where
  "resolver 0 =
    \<lparr>rec_resolveType = (\<lambda>node ctx reportNotFound p. Inl OutOfFuel),
     rec_ClassPrototype_resolve = (\<lambda>this typeArguments ctx p. Inl OutOfFuel),
     rec_FunctionPrototype_resolve = (\<lambda>this typeArguments ctx p. Inl OutOfFuel)\<rparr>"
| "resolver (Suc n) =
    \<lparr>rec_resolveType = resolveType_body (resolver n),
     rec_ClassPrototype_resolve = ClassPrototype_resolve_body (resolver n),
     rec_FunctionPrototype_resolve = FunctionPrototype_resolve_body (resolver n)\<rparr>"


definition resolveSignature ::
  "nat \<Rightarrow> SignatureNode \<Rightarrow> TypeArguments option \<Rightarrow> bool \<Rightarrow> Program \<Rightarrow> Signature option Outcome" where
  "resolveSignature fuel = resolveSignature_body (resolver fuel)"

definition resolveTypeArguments ::
  "nat \<Rightarrow> string list \<Rightarrow> CommonTypeNode list option \<Rightarrow> TypeArguments option
    \<Rightarrow> NodeKind option \<Rightarrow> Program \<Rightarrow> Type list option Outcome" where
  "resolveTypeArguments fuel = resolveTypeArguments_body (resolver fuel)"

definition ClassPrototype_resolve ::
  "nat \<Rightarrow> handle \<Rightarrow> Type list option \<Rightarrow> TypeArguments option \<Rightarrow> Program
    \<Rightarrow> handle option Outcome" where
  "ClassPrototype_resolve fuel = rec_ClassPrototype_resolve (resolver fuel)"

definition FunctionPrototype_resolve ::
  "nat \<Rightarrow> handle \<Rightarrow> Type list option \<Rightarrow> TypeArguments option \<Rightarrow> Program
    \<Rightarrow> handle option Outcome" where
  "FunctionPrototype_resolve fuel = rec_FunctionPrototype_resolve (resolver fuel)"

subsection \<open>Classes\<close>

text \<open>
  \<open>Class.isAssignableTo\<close> (lines 3410-3415). The loop follows \<open>base\<close> until it is
  \<open>null\<close>; on a chain of bases that runs in a circle it would not end, so the function
  is partial and \<open>None\<close> is the run that never returns.
\<close>

definition baseOf :: "Program \<Rightarrow> handle \<Rightarrow> handle option" where
  "baseOf p h = (case classOf p h of None \<Rightarrow> None | Some c \<Rightarrow> c_base c)"

partial_function (option) isAssignableTo :: "Program \<Rightarrow> handle \<Rightarrow> handle \<Rightarrow> bool option" where
  "isAssignableTo p current target =
    (if current = target then Some True
     else
       (case baseOf p current of
          None \<Rightarrow> Some False
        | Some base \<Rightarrow> isAssignableTo p base target))"

text \<open>
  The base chain of a class, as the relation that links a class to its \<open>base\<close>, and
  the order of allocation: \<open>new Class\<close> takes the base as an argument (line 3180),
  so a base has a smaller handle than the classes derived from it.
\<close>

definition baseChain :: "Program \<Rightarrow> (handle \<times> handle) set" where
  "baseChain p = {(c, b). baseOf p c = Some b}"

definition basesAllocatedFirst :: "Program \<Rightarrow> bool" where
  "basesAllocatedFirst p =
    list_all (\<lambda>h. case baseOf p h of None \<Rightarrow> True | Some b \<Rightarrow> b < h)
      [0..<length (elements p)]"

subsection \<open>The words of the specification\<close>

text \<open>
  The symbols that the specification lists for the \<open>@operator\<close> decorator, in its
  order: \<open>[] []= + - * / % ** & | ^ == != > >= < <=\<close>.
\<close>

definition spec_operatorSymbols :: "string list" where
  "spec_operatorSymbols =
    [''[]'', ''[]='', ''+'', ''-'', ''*'', ''/'', ''%'', ''**'', ''&'', ''|'', ''^'',
     ''=='', ''!='', ''>'', ''>='', ''<'', ''<='']"

subsection \<open>The first pass of \<open>initialize\<close>\<close>

text \<open>
  The loop of \<open>initialize\<close> over the statements of the sources (lines 249-293), for
  sources that hold class declarations and export statements; the other kinds of
  statement are not modelled. The queues of lines 243-246 start empty.
\<close>

datatype Statement =
    ClassDeclarationStatement ClassDeclaration
  | ExportStatementNode ExportStatement

fun initialize_statements ::
  "Statement list \<Rightarrow> Queues \<Rightarrow> (string, QueuedExport) Map \<Rightarrow> Program
    \<Rightarrow> Error + Queues \<times> (string, QueuedExport) Map \<times> Program" where
  "initialize_statements [] qs queuedExports p = Inr (qs, queuedExports, p)"
| "initialize_statements (ClassDeclarationStatement decl # rest) qs queuedExports p =
    (case initializeClass decl qs None p of
       Inl err \<Rightarrow> Inl err
     | Inr (qs1, p1) \<Rightarrow> initialize_statements rest qs1 queuedExports p1)"
| "initialize_statements (ExportStatementNode statement # rest) qs queuedExports p =
    (let (queuedExports1, p1) = initializeExports statement queuedExports p
     in initialize_statements rest qs queuedExports1 p1)"

text \<open>
  The types that \<open>initialize\<close> registers first (lines 224-241), and a program before
  its first pass, compiled for 32-bit pointers.
\<close>

definition initialTypes :: "Type \<Rightarrow> Type \<Rightarrow> (string, Type) Map" where
  "initialTypes isizeType usize =
    [(''i8'', Type_i8), (''i16'', Type_i16), (''i32'', Type_i32), (''i64'', Type_i64),
     (''isize'', isizeType), (''u8'', Type_u8), (''u16'', Type_u16), (''u32'', Type_u32),
     (''u64'', Type_u64), (''usize'', usize), (''bool'', Type_bool), (''f32'', Type_f32),
     (''f64'', Type_f64), (''void'', Type_void), (''number'', Type_f64),
     (''boolean'', Type_bool)]"

definition newProgram :: Program where
  "newProgram =
    \<lparr>elements = [], diagnostics = [], usizeType = Type_usize32, elementsLookup = [],
     typesLookup = initialTypes Type_isize32 Type_usize32, typeAliases = [],
     fileLevelExports = [], moduleLevelExports = []\<rparr>"

definition noQueues :: Queues where
  "noQueues = \<lparr>queuedExtends = [], queuedImplements = []\<rparr>"

definition firstPass :: "Statement list \<Rightarrow> Error + Queues \<times> (string, QueuedExport) Map \<times> Program" where
  "firstPass statements = initialize_statements statements noQueues [] newProgram"

subsection \<open>Example sources\<close>

text \<open>
  The scenarios of the specification and the inputs used below, as the parser would
  hand them over: one entry file \<open>a.ts\<close> (and \<open>b.ts\<close> beside it), no library file.
\<close>

definition entrySource :: "string \<Rightarrow> Source" where
  "entrySource path = \<lparr>internalPath = path, isEntry = True, isLibrary = False\<rparr>"

definition namedType :: "Source \<Rightarrow> string \<Rightarrow> CommonTypeNode" where
  "namedType src name = TypeNode name (Some []) src"

definition fieldOfType :: "Source \<Rightarrow> string \<Rightarrow> string \<Rightarrow> string \<Rightarrow> ClassMember" where
  "fieldOfType src className name typeName =
    FieldDeclarationMember
      \<lparr>fd_name = name,
       fd_fileLevelInternalName =
         internalPath src @ PATH_DELIMITER @ className @ INSTANCE_DELIMITER @ name,
       fd_type = Some (namedType src typeName), fd_flags = CommonFlags_INSTANCE\<rparr>"

definition classDeclaration ::
  "Source \<Rightarrow> string \<Rightarrow> CommonFlags \<Rightarrow> DecoratorNode list option \<Rightarrow> string option
    \<Rightarrow> ClassMember list \<Rightarrow> ClassDeclaration" where
  "classDeclaration src name fs decorators extends ms =
    \<lparr>cd_name = name, cd_fileLevelInternalName = internalPath src @ PATH_DELIMITER @ name,
     cd_typeParameters = [], cd_extendsType = map_option (namedType src) extends,
     cd_implementsTypes = None, cd_members = ms, cd_flags = fs, cd_decorators = decorators,
     cd_source = src, cd_parentKinds = [NodeKind_SOURCE]\<rparr>"

definition decoratorNode :: "Source \<Rightarrow> DecoratorKind \<Rightarrow> string \<Rightarrow> Expression list option \<Rightarrow> DecoratorNode" where
  "decoratorNode src k name args =
    \<lparr>dn_decoratorKind = k, dn_name = Identifier \<lparr>id_text = name, id_source = src\<rparr>,
     dn_arguments = args\<rparr>"

text \<open>S3: \<open>class A { x: i8; y: i32 }\<close>.\<close>

definition S3_statements :: "Statement list" where
  "S3_statements =
    [ClassDeclarationStatement
       (classDeclaration (entrySource ''a'') ''A'' CommonFlags_NONE None None
          [fieldOfType (entrySource ''a'') ''A'' ''x'' ''i8'',
           fieldOfType (entrySource ''a'') ''A'' ''y'' ''i32''])]"

text \<open>S4: \<open>class A {}\<close>, \<open>@sealed class B extends A {}\<close>, \<open>class C extends B {}\<close>.\<close>

definition S4_statements :: "Statement list" where
  "S4_statements =
    [ClassDeclarationStatement
       (classDeclaration (entrySource ''a'') ''A'' CommonFlags_NONE None None []),
     ClassDeclarationStatement
       (classDeclaration (entrySource ''a'') ''B'' CommonFlags_NONE
          (Some [decoratorNode (entrySource ''a'') DecoratorKind_SEALED ''sealed'' None])
          (Some ''A'') []),
     ClassDeclarationStatement
       (classDeclaration (entrySource ''a'') ''C'' CommonFlags_NONE None (Some ''B'') [])]"

definition S4_program :: Program where
  "S4_program = snd (snd (projr (firstPass S4_statements)))"

text \<open>
  S5: a class \<open>Vec\<close> with \<open>@operator("+") add(other: this): this\<close> and a second method
  \<open>plus\<close> with the same decorator.
\<close>

definition operatorMethod :: "Source \<Rightarrow> string \<Rightarrow> string \<Rightarrow> string \<Rightarrow> FunctionDeclaration" where
  "operatorMethod src className name symbol =
    \<lparr>fn_name = name, fn_nameKind = NodeKind_IDENTIFIER,
     fn_fileLevelInternalName =
       internalPath src @ PATH_DELIMITER @ className @ INSTANCE_DELIMITER @ name,
     fn_typeParameters = None,
     fn_signature =
       SignatureNode [ParameterNode ''other'' (Some (namedType src ''this'')) ParameterKind_DEFAULT]
         (Some (namedType src ''this'')) None,
     fn_flags = CommonFlags_INSTANCE,
     fn_decorators =
       Some [decoratorNode src DecoratorKind_OPERATOR ''operator''
               (Some [Literal LiteralKind_STRING symbol])]\<rparr>"

definition S5_statements :: "Statement list" where
  "S5_statements =
    [ClassDeclarationStatement
       (classDeclaration (entrySource ''a'') ''Vec'' CommonFlags_NONE None None
          [MethodDeclarationMember (operatorMethod (entrySource ''a'') ''Vec'' ''add'' ''+''),
           MethodDeclarationMember (operatorMethod (entrySource ''a'') ''Vec'' ''plus'' ''+'')])]"

text \<open>
  The class \<open>Vec\<close> after its first method, and the prototype of the second method
  as \<open>initializeMethod\<close> constructs it before it looks at the decorators.
\<close>

definition S5_first :: Program where
  "S5_first =
    snd (snd (projr (firstPass
      [ClassDeclarationStatement
         (classDeclaration (entrySource ''a'') ''Vec'' CommonFlags_NONE None None
            [MethodDeclarationMember
               (operatorMethod (entrySource ''a'') ''Vec'' ''add'' ''+'')])])))"

definition S5_second :: "handle \<times> Program" where
  "S5_second =
    alloc (new_FunctionPrototype ''plus'' ''a/Vec#plus''
             (operatorMethod (entrySource ''a'') ''Vec'' ''plus'' ''+'') (Some 0)
             DecoratorFlags_NONE) S5_first"

text \<open>A class with a field of its own type: \<open>class Node { next: Node }\<close>.\<close>

definition Node_statements :: "Statement list" where
  "Node_statements =
    [ClassDeclarationStatement
       (classDeclaration (entrySource ''a'') ''Node'' CommonFlags_NONE None None
          [fieldOfType (entrySource ''a'') ''Node'' ''next'' ''Node''])]"

definition Node_program :: Program where
  "Node_program = snd (snd (projr (firstPass Node_statements)))"

text \<open>
  A class with a field of the type of its subclass: \<open>class B { f: A }\<close> and
  \<open>class A extends B {}\<close>.
\<close>

definition Subclass_statements :: "Statement list" where
  "Subclass_statements =
    [ClassDeclarationStatement
       (classDeclaration (entrySource ''a'') ''B'' CommonFlags_NONE None None
          [fieldOfType (entrySource ''a'') ''B'' ''f'' ''A'']),
     ClassDeclarationStatement
       (classDeclaration (entrySource ''a'') ''A'' CommonFlags_NONE None (Some ''B'') [])]"

definition Subclass_program :: Program where
  "Subclass_program = snd (snd (projr (firstPass Subclass_statements)))"

text \<open>
  An entry file that exports a class by a statement that stands before the
  declaration: \<open>export { Foo };\<close> and \<open>class Foo {}\<close>.
\<close>

definition exportMember :: "Source \<Rightarrow> string \<Rightarrow> string \<Rightarrow> ExportMember" where
  "exportMember src name path =
    \<lparr>em_name = \<lparr>id_text = name, id_source = src\<rparr>,
     em_externalName = \<lparr>id_text = name, id_source = src\<rparr>,
     em_source = src, em_statementPath = path\<rparr>"

definition Export_statements :: "Statement list" where
  "Export_statements =
    [ExportStatementNode
       \<lparr>es_members = [exportMember (entrySource ''a'') ''Foo'' []], es_internalPath = None\<rparr>,
     ClassDeclarationStatement
       (classDeclaration (entrySource ''a'') ''Foo'' CommonFlags_NONE None None [])]"

text \<open>
  Two files that export a name from each other: \<open>export { a } from "./b";\<close> in
  \<open>a.ts\<close> and \<open>export { a } from "./a";\<close> in \<open>b.ts\<close>.
\<close>

definition Cycle_statements :: "Statement list" where
  "Cycle_statements =
    [ExportStatementNode
       \<lparr>es_members = [exportMember (entrySource ''a'') ''a'' ''./b''],
        es_internalPath = Some ''b''\<rparr>,
     ExportStatementNode
       \<lparr>es_members = [exportMember (entrySource ''b'') ''a'' ''./a''],
        es_internalPath = Some ''a''\<rparr>]"

definition Cycle_queuedExports :: "(string, QueuedExport) Map" where
  "Cycle_queuedExports = fst (snd (projr (firstPass Cycle_statements)))"

definition Cycle_program :: Program where
  "Cycle_program = snd (snd (projr (firstPass Cycle_statements)))"

text \<open>A chain of three classes: \<open>class A {}\<close>, \<open>class B extends A {}\<close>, \<open>class C extends B {}\<close>.\<close>

definition Chain_statements :: "Statement list" where
  "Chain_statements =
    [ClassDeclarationStatement
       (classDeclaration (entrySource ''a'') ''A'' CommonFlags_NONE None None []),
     ClassDeclarationStatement
       (classDeclaration (entrySource ''a'') ''B'' CommonFlags_NONE None (Some ''A'') []),
     ClassDeclarationStatement
       (classDeclaration (entrySource ''a'') ''C'' CommonFlags_NONE None (Some ''B'') [])]"

definition Chain_program :: Program where
  "Chain_program =
    snd (projr (ClassPrototype_resolve 5 2 None None
                  (snd (snd (projr (firstPass Chain_statements))))))"

text \<open>The signature \<open>(...args: i32) => void\<close>, without a return type written.\<close>

definition Rest_signature :: SignatureNode where
  "Rest_signature =
    SignatureNode
      [ParameterNode ''args'' (Some (namedType (entrySource ''a'') ''i32'')) ParameterKind_REST]
      None None"

section \<open>Properties of the model\<close>

subsection \<open>Operator decorators\<close>

lemma deref_update:
  "deref (update h f p) h' = (if h' = h then map_option f (deref p h) else deref p h')"
  by (simp add: deref_def update_def)

lemma deref_error [simp]: "deref (error c a p) h = deref p h"
  by (simp add: deref_def error_def)

lemma operatorKindFromString_valid:
  "operatorKindFromString s \<noteq> OperatorKind_INVALID \<longleftrightarrow> s \<in> set spec_operatorSymbols"
  by (simp add: operatorKindFromString_def spec_operatorSymbols_def)

lemma operatorKindFromString_distinct:
  "inj_on operatorKindFromString (set spec_operatorSymbols)"
  unfolding inj_on_def spec_operatorSymbols_def
  by (simp add: operatorKindFromString_def)

lemma classPrototypeOf_function_distinct:
  "classPrototypeOf p c = Some cpd \<Longrightarrow> functionPrototypeOf p f = Some fpd \<Longrightarrow> c \<noteq> f"
  by (auto simp: classPrototypeOf_def functionPrototypeOf_def split: option.splits Payload.splits)

lemma functionPrototypeOf_updateFunctionPrototype:
  "functionPrototypeOf p h = Some d \<Longrightarrow>
   functionPrototypeOf (updateFunctionPrototype h f p) h = Some (f d)"
  by (auto simp: functionPrototypeOf_def updateFunctionPrototype_def deref_update
           split: option.splits Payload.splits)

lemma functionPrototypeOf_updateClassPrototype:
  "functionPrototypeOf (updateClassPrototype c f p) h = functionPrototypeOf p h"
  by (auto simp: functionPrototypeOf_def updateClassPrototype_def deref_update
           split: option.splits Payload.splits)

lemma classPrototypeOf_updateFunctionPrototype:
  "classPrototypeOf (updateFunctionPrototype c f p) h = classPrototypeOf p h"
  by (auto simp: classPrototypeOf_def updateFunctionPrototype_def deref_update
           split: option.splits Payload.splits)

lemma classPrototypeOf_updateClassPrototype:
  "classPrototypeOf p h = Some d \<Longrightarrow>
   classPrototypeOf (updateClassPrototype h f p) h = Some (f d)"
  by (auto simp: classPrototypeOf_def updateClassPrototype_def deref_update
           split: option.splits Payload.splits)

lemma Map_get_Map_set_same: "Map_get (Map_set m k v) k = Some v"
  by (induction m) (auto simp: Map_get_def)

lemma diagnostics_update [simp]: "diagnostics (update h f p) = diagnostics p"
  by (simp add: update_def)

text \<open>
  Claim C6. For a decorator \<open>@operator("symbol")\<close> on a method of a class:
  \<open>operatorKindFromString\<close> gives a valid kind exactly for the seventeen symbols of the
  specification, and a different kind for each of them; any other symbol emits
  \<open>Operation not supported\<close> and changes nothing else; a symbol whose kind the class's
  overload map already holds emits \<open>Duplicate function implementation\<close> and leaves the
  map (with the first prototype) and the second prototype as they were; otherwise no
  diagnostic is emitted, the prototype's \<open>operatorKind\<close> is set and the map holds the
  prototype under that kind.
\<close>

theorem operator_decorator:
  assumes kind: "dn_decoratorKind decorator = DecoratorKind_OPERATOR"
    and args: "dn_arguments decorator = Some [Literal LiteralKind_STRING symbol]"
    and cls: "classPrototypeOf p classPrototype = Some cpd"
    and fn: "functionPrototypeOf p prototype = Some fpd"
  shows "(operatorKindFromString symbol \<noteq> OperatorKind_INVALID
            \<longleftrightarrow> symbol \<in> set spec_operatorSymbols)
       \<and> inj_on operatorKindFromString (set spec_operatorSymbols)
       \<and> (symbol \<notin> set spec_operatorSymbols \<longrightarrow>
            checkOperatorOverload decorator prototype classPrototype p
              = Inr (error Operation_not_supported [] p))
       \<and> (symbol \<in> set spec_operatorSymbols
            \<and> Map_has (cp_overloadPrototypes cpd) (operatorKindFromString symbol) \<longrightarrow>
            checkOperatorOverload decorator prototype classPrototype p
              = Inr (error Duplicate_function_implementation [] p)
            \<and> classPrototypeOf (error Duplicate_function_implementation [] p) classPrototype
              = Some cpd
            \<and> functionPrototypeOf (error Duplicate_function_implementation [] p) prototype
              = Some fpd)
       \<and> (symbol \<in> set spec_operatorSymbols
            \<and> \<not> Map_has (cp_overloadPrototypes cpd) (operatorKindFromString symbol) \<longrightarrow>
            (\<exists>p'. checkOperatorOverload decorator prototype classPrototype p = Inr p'
               \<and> diagnostics p' = diagnostics p
               \<and> map_option fp_operatorKind (functionPrototypeOf p' prototype)
                   = Some (operatorKindFromString symbol)
               \<and> (\<exists>cpd'. classPrototypeOf p' classPrototype = Some cpd'
                     \<and> Map_get (cp_overloadPrototypes cpd') (operatorKindFromString symbol)
                         = Some prototype)))"
proof -
  have valid: "operatorKindFromString symbol \<noteq> OperatorKind_INVALID
      \<longleftrightarrow> symbol \<in> set spec_operatorSymbols"
    by (rule operatorKindFromString_valid)
  have unknown: "checkOperatorOverload decorator prototype classPrototype p
      = Inr (error Operation_not_supported [] p)" if "symbol \<notin> set spec_operatorSymbols"
    using that valid kind args by (simp add: checkOperatorOverload_def)
  have duplicate: "checkOperatorOverload decorator prototype classPrototype p
      = Inr (error Duplicate_function_implementation [] p)"
    if "symbol \<in> set spec_operatorSymbols"
      "Map_has (cp_overloadPrototypes cpd) (operatorKindFromString symbol)"
    using that valid kind args cls by (simp add: checkOperatorOverload_def)
  have kept: "classPrototypeOf (error Duplicate_function_implementation [] p) classPrototype
      = Some cpd"
    "functionPrototypeOf (error Duplicate_function_implementation [] p) prototype = Some fpd"
    using cls fn by (simp_all add: classPrototypeOf_def functionPrototypeOf_def)
  have fresh: "\<exists>p'. checkOperatorOverload decorator prototype classPrototype p = Inr p'
       \<and> diagnostics p' = diagnostics p
       \<and> map_option fp_operatorKind (functionPrototypeOf p' prototype)
           = Some (operatorKindFromString symbol)
       \<and> (\<exists>cpd'. classPrototypeOf p' classPrototype = Some cpd'
             \<and> Map_get (cp_overloadPrototypes cpd') (operatorKindFromString symbol)
                 = Some prototype)"
    if "symbol \<in> set spec_operatorSymbols"
      "\<not> Map_has (cp_overloadPrototypes cpd) (operatorKindFromString symbol)"
  proof -
    let ?k = "operatorKindFromString symbol"
    let ?p1 = "updateFunctionPrototype prototype (\<lambda>d. d\<lparr>fp_operatorKind := ?k\<rparr>) p"
    let ?p2 = "updateClassPrototype classPrototype
                 (\<lambda>d. d\<lparr>cp_overloadPrototypes := Map_set (cp_overloadPrototypes d) ?k prototype\<rparr>) ?p1"
    have run: "checkOperatorOverload decorator prototype classPrototype p = Inr ?p2"
      using that valid kind args cls by (simp add: checkOperatorOverload_def Let_def)
    have d: "diagnostics ?p2 = diagnostics p"
      by (simp add: updateClassPrototype_def updateFunctionPrototype_def)
    have f: "functionPrototypeOf ?p2 prototype = Some (fpd\<lparr>fp_operatorKind := ?k\<rparr>)"
      using fn
      by (simp add: functionPrototypeOf_updateClassPrototype
            functionPrototypeOf_updateFunctionPrototype)
    have c: "classPrototypeOf ?p2 classPrototype
        = Some (cpd\<lparr>cp_overloadPrototypes := Map_set (cp_overloadPrototypes cpd) ?k prototype\<rparr>)"
      using cls
      by (simp add: classPrototypeOf_updateClassPrototype classPrototypeOf_updateFunctionPrototype)
    show ?thesis
      using run d f c by (simp add: Map_get_Map_set_same)
  qed
  show ?thesis
    using valid operatorKindFromString_distinct unknown duplicate kept fresh by blast
qed

text \<open>
  The theorem at scenario S5: the class \<open>Vec\<close> holds \<open>add\<close> under \<open>ADD\<close>, and the
  decorator of the second method, the prototype with handle 2, is refused.
\<close>

theorem operator_decorator_witness:
  "checkOperatorOverload
     (decoratorNode (entrySource ''a'') DecoratorKind_OPERATOR ''operator''
        (Some [Literal LiteralKind_STRING ''+'']))
     2 0 (snd S5_second)
     = Inr (error Duplicate_function_implementation [] (snd S5_second))
   \<and> ''+'' \<in> set spec_operatorSymbols
   \<and> operatorKindFromString ''+'' = OperatorKind_ADD
   \<and> map_option cp_overloadPrototypes (classPrototypeOf (snd S5_second) 0)
       = Some [(OperatorKind_ADD, 1)]
   \<and> fst S5_second = 2"
proof -
  let ?d = "decoratorNode (entrySource ''a'') DecoratorKind_OPERATOR ''operator''
              (Some [Literal LiteralKind_STRING ''+''])"
  let ?p = "snd S5_second"
  have ev: "(let p = snd S5_second
             in (fst S5_second, map_option cp_overloadPrototypes (classPrototypeOf p 0),
                 functionPrototypeOf p 2 \<noteq> None))
            = (2, Some [(OperatorKind_ADD, 1)], True)"
    by code_simp
  then obtain cpd fpd where c: "classPrototypeOf ?p 0 = Some cpd"
    and o: "cp_overloadPrototypes cpd = [(OperatorKind_ADD, 1)]"
    and f: "functionPrototypeOf ?p 2 = Some fpd"
    by (auto simp add: Let_def)
  have k: "dn_decoratorKind ?d = DecoratorKind_OPERATOR"
    by (simp add: decoratorNode_def)
  have a: "dn_arguments ?d = Some [Literal LiteralKind_STRING ''+'']"
    by (simp add: decoratorNode_def)
  have m: "''+'' \<in> set spec_operatorSymbols"
    by (simp add: spec_operatorSymbols_def)
  have s: "operatorKindFromString ''+'' = OperatorKind_ADD"
    by (simp add: operatorKindFromString_def)
  have h: "Map_has (cp_overloadPrototypes cpd) (operatorKindFromString ''+'')"
    by (simp add: o s Map_has_def)
  from operator_decorator [OF k a c f] m h
  have "checkOperatorOverload ?d 2 0 ?p = Inr (error Duplicate_function_implementation [] ?p)"
    by blast
  then show ?thesis
    using m s ev by (simp add: Let_def)
qed

lemma S5_duplicate_operator:
  "(case firstPass S5_statements of
      Inl err \<Rightarrow> None
    | Inr (qs, queuedExports, p) \<Rightarrow>
        Some (diagnostics p, map_option cp_overloadPrototypes (classPrototypeOf p 0),
              map_option fp_operatorKind (functionPrototypeOf p 1),
              map_option fp_operatorKind (functionPrototypeOf p 2)))
   = Some ([DiagnosticMessage Duplicate_function_implementation []],
           Some [(OperatorKind_ADD, 1)], Some OperatorKind_ADD, Some OperatorKind_INVALID)"
  by code_simp

subsection \<open>Assignability of classes\<close>

lemma baseOf_valid: "baseOf p h = Some b \<Longrightarrow> h < length (elements p)"
  by (auto simp: baseOf_def classOf_def deref_def split: option.splits if_splits)

lemma basesAllocatedFirst_less:
  assumes "basesAllocatedFirst p" "baseOf p h = Some b"
  shows "b < h"
proof -
  have "h < length (elements p)" using assms(2) by (rule baseOf_valid)
  moreover have "\<forall>h \<in> set [0..<length (elements p)].
      (case baseOf p h of None \<Rightarrow> True | Some b \<Rightarrow> b < h)"
    using assms(1) by (simp add: basesAllocatedFirst_def list_all_iff)
  ultimately have "case baseOf p h of None \<Rightarrow> True | Some b \<Rightarrow> b < h" by simp
  then show ?thesis using assms(2) by simp
qed

lemma isAssignableTo_self: "isAssignableTo p c c = Some True"
  by (subst isAssignableTo.simps) simp

lemma isAssignableTo_step:
  "baseOf p c = Some b \<Longrightarrow> c \<noteq> t \<Longrightarrow> isAssignableTo p c t = isAssignableTo p b t"
  by (subst isAssignableTo.simps) simp

lemma isAssignableTo_chain:
  "(c, t) \<in> (baseChain p)\<^sup>* \<Longrightarrow> isAssignableTo p c t = Some True"
proof (induction rule: converse_rtrancl_induct)
  case base
  show ?case by (rule isAssignableTo_self)
next
  case (step c b)
  then have b: "baseOf p c = Some b" by (simp add: baseChain_def)
  show ?case
  proof (cases "c = t")
    case True
    then show ?thesis by (simp add: isAssignableTo_self)
  next
    case False
    with b step.IH show ?thesis by (simp add: isAssignableTo_step)
  qed
qed

lemma isAssignableTo_true_chain:
  assumes "isAssignableTo p c t = Some y"
  shows "y \<longrightarrow> (c, t) \<in> (baseChain p)\<^sup>*"
proof (rule isAssignableTo.raw_induct
    [where P = "\<lambda>p c t y. y \<longrightarrow> (c, t) \<in> (baseChain p)\<^sup>*", OF _ assms])
  fix f p c t y
  assume IH: "\<And>p c t y. f p c t = Some y \<Longrightarrow> y \<longrightarrow> (c, t) \<in> (baseChain p)\<^sup>*"
    and eq: "(if c = t then Some True
              else case baseOf p c of None \<Rightarrow> Some False | Some base \<Rightarrow> f p base t) = Some y"
  show "y \<longrightarrow> (c, t) \<in> (baseChain p)\<^sup>*"
  proof (cases "c = t")
    case True
    then show ?thesis by simp
  next
    case False
    show ?thesis
    proof (cases "baseOf p c")
      case None
      with False eq show ?thesis by auto
    next
      case (Some b)
      with False eq have "f p b t = Some y" by simp
      then have "y \<longrightarrow> (b, t) \<in> (baseChain p)\<^sup>*" by (rule IH)
      moreover have "(c, b) \<in> baseChain p" using Some by (simp add: baseChain_def)
      ultimately show ?thesis by (auto intro: converse_rtrancl_into_rtrancl)
    qed
  qed
qed

lemma chain_step_iff:
  assumes "baseOf p c = Some b" "c \<noteq> t"
  shows "(c, t) \<in> (baseChain p)\<^sup>* \<longleftrightarrow> (b, t) \<in> (baseChain p)\<^sup>*"
proof
  assume "(c, t) \<in> (baseChain p)\<^sup>*"
  then show "(b, t) \<in> (baseChain p)\<^sup>*"
    using assms by (cases rule: converse_rtranclE) (auto simp: baseChain_def)
next
  assume "(b, t) \<in> (baseChain p)\<^sup>*"
  moreover have "(c, b) \<in> baseChain p" using assms by (simp add: baseChain_def)
  ultimately show "(c, t) \<in> (baseChain p)\<^sup>*" by (rule converse_rtrancl_into_rtrancl [rotated])
qed

lemma chain_end:
  assumes "baseOf p c = None" "c \<noteq> t"
  shows "(c, t) \<notin> (baseChain p)\<^sup>*"
proof
  assume "(c, t) \<in> (baseChain p)\<^sup>*"
  then show False
    using assms by (cases rule: converse_rtranclE) (auto simp: baseChain_def)
qed

lemma isAssignableTo_total:
  assumes wf: "basesAllocatedFirst p"
  shows "isAssignableTo p c t = Some ((c, t) \<in> (baseChain p)\<^sup>*)"
proof (induction c rule: less_induct)
  case (less c)
  show ?case
  proof (cases "c = t")
    case True
    then show ?thesis by (simp add: isAssignableTo_self)
  next
    case False
    show ?thesis
    proof (cases "baseOf p c")
      case None
      have "isAssignableTo p c t = Some False"
        using None False by (subst isAssignableTo.simps) simp
      with chain_end [OF None False] show ?thesis by simp
    next
      case (Some b)
      then have "b < c" using wf by (rule basesAllocatedFirst_less [rotated])
      then have "isAssignableTo p b t = Some ((b, t) \<in> (baseChain p)\<^sup>*)" by (rule less.IH)
      then show ?thesis
        using Some False by (simp add: isAssignableTo_step chain_step_iff)
    qed
  qed
qed

text \<open>
  Claim C10. \<open>C.isAssignableTo(T)\<close> returns \<open>true\<close> if and only if \<open>T\<close> is on the
  base chain of \<open>C\<close> (\<open>C\<close>, \<open>C.base\<close>, \<open>C.base.base\<close>, ...); it is reflexive and
  transitive. Where every base was allocated before the classes derived from it, as
  \<open>new Class\<close> does, the call returns for every pair of classes, with \<open>false\<close>
  exactly off the chain.
\<close>

theorem isAssignableTo_base_chain:
  "(isAssignableTo p c t = Some True \<longleftrightarrow> (c, t) \<in> (baseChain p)\<^sup>*)
   \<and> isAssignableTo p c c = Some True
   \<and> (isAssignableTo p a b = Some True \<and> isAssignableTo p b t = Some True
        \<longrightarrow> isAssignableTo p a t = Some True)
   \<and> (basesAllocatedFirst p \<longrightarrow> isAssignableTo p c t = Some ((c, t) \<in> (baseChain p)\<^sup>*))"
proof -
  have iff: "isAssignableTo p x y = Some True \<longleftrightarrow> (x, y) \<in> (baseChain p)\<^sup>*" for x y
    using isAssignableTo_chain [of x y p] isAssignableTo_true_chain [of p x y True] by blast
  have trans: "isAssignableTo p a t = Some True"
    if "isAssignableTo p a b = Some True" "isAssignableTo p b t = Some True"
  proof -
    from that have "(a, b) \<in> (baseChain p)\<^sup>*" "(b, t) \<in> (baseChain p)\<^sup>*"
      by (simp_all add: iff)
    then have "(a, t) \<in> (baseChain p)\<^sup>*" by (rule rtrancl_trans)
    then show ?thesis by (simp add: iff)
  qed
  show ?thesis
    using iff isAssignableTo_self trans isAssignableTo_total by blast
qed

text \<open>
  The theorem on the classes that resolving \<open>C\<close> creates for \<open>class A {}\<close>,
  \<open>class B extends A {}\<close>, \<open>class C extends B {}\<close>: the instances 3, 4 and 5.
\<close>

theorem isAssignableTo_base_chain_witness:
  "isAssignableTo Chain_program 5 3 = Some True
   \<and> isAssignableTo Chain_program 3 5 = Some False
   \<and> isAssignableTo Chain_program 5 5 = Some True
   \<and> (5, 3) \<in> (baseChain Chain_program)\<^sup>*
   \<and> (3, 5) \<notin> (baseChain Chain_program)\<^sup>*
   \<and> basesAllocatedFirst Chain_program"
proof -
  have ev: "(let p = Chain_program
             in (baseOf p 5, baseOf p 4, baseOf p 3, basesAllocatedFirst p))
            = (Some 4, Some 3, None, True)"
    by code_simp
  then have b5: "baseOf Chain_program 5 = Some 4" and b4: "baseOf Chain_program 4 = Some 3"
    and b3: "baseOf Chain_program 3 = None" and wf: "basesAllocatedFirst Chain_program"
    by (simp_all add: Let_def)
  have up: "(5, 3) \<in> (baseChain Chain_program)\<^sup>*"
  proof -
    have "(5, 4) \<in> baseChain Chain_program" "(4, 3) \<in> baseChain Chain_program"
      using b5 b4 by (simp_all add: baseChain_def)
    then show ?thesis by (meson rtrancl.simps)
  qed
  have down: "(3, 5) \<notin> (baseChain Chain_program)\<^sup>*"
    using b3 by (intro chain_end) simp_all
  note total = isAssignableTo_base_chain [of Chain_program, THEN conjunct2, THEN conjunct2,
      THEN conjunct2, rule_format, OF wf]
  have "isAssignableTo Chain_program 5 3 = Some True"
    using total [of 5 3] up by simp
  moreover have "isAssignableTo Chain_program 3 5 = Some False"
    using total [of 3 5] down by simp
  moreover have "isAssignableTo Chain_program 5 5 = Some True"
    using isAssignableTo_base_chain [of Chain_program 5 5] by simp
  ultimately show ?thesis
    using up down wf by simp
qed

subsection \<open>Field layout\<close>













lemma S3_layout:
  "(case firstPass S3_statements of
      Inl err \<Rightarrow> None
    | Inr (qs, queuedExports, p) \<Rightarrow>
        (case ClassPrototype_resolve 3 0 None None p of
           Inl err \<Rightarrow> None
         | Inr (instance, p1) \<Rightarrow>
             Some (instance, map_option fi_memoryOffset (fieldOf p1 4),
                   map_option fi_memoryOffset (fieldOf p1 5),
                   map_option c_currentMemoryOffset (classOf p1 3))))
   = Some (Some 3, Some 0, Some 4, Some 8)"
  by code_simp

subsection \<open>Rest parameters\<close>

lemma resolveSignature_parameters_rest:
  "i + length pre \<noteq> numParameters \<Longrightarrow>
   resolveSignature_parameters rec (pre @ ParameterNode name typeNode ParameterKind_REST # post)
     i numParameters ctx reportNotFound types names required rest p \<noteq> Inr (Some x, p')"
proof (induction pre arbitrary: i types names required rest p)
  case Nil
  then show ?case by simp
next
  case (Cons node pre)
  obtain name' typeNode' parameterKind' where node: "node = ParameterNode name' typeNode' parameterKind'"
    by (cases node)
  from Cons.prems have next_index: "(i + 1) + length pre \<noteq> numParameters" by simp
  show ?case
  proof (cases "parameterKind' = ParameterKind_REST \<and> i \<noteq> numParameters")
    case True
    then show ?thesis by (simp add: node)
  next
    case False
    show ?thesis
    proof (cases typeNode')
      case None
      with False show ?thesis by (simp add: node)
    next
      case (Some tn)
      show ?thesis
      proof (cases "rec_resolveType rec tn ctx reportNotFound p")
        case (Inl err)
        with False Some show ?thesis by (simp add: node andThen_def)
      next
        case (Inr r)
        obtain t p1 where r: "r = (t, p1)" by (cases r)
        show ?thesis
        proof (cases t)
          case None
          with False Some Inr r show ?thesis by (simp add: node andThen_def)
        next
          case (Some t1)
          from Cons.IH [OF next_index]
          show ?thesis
            using False \<open>typeNode' = Some tn\<close> Inr r Some
            by (simp add: node andThen_def Let_def)
        qed
      qed
    qed
  qed
qed

lemma resolveSignature_return_rest:
  "resolveSignature_return rec
     (SignatureNode (pre @ ParameterNode name typeNode ParameterKind_REST # post)
        returnTypeNode explicitThisType)
     ctx reportNotFound thisT p \<noteq> Inr (Some s, p')"
proof -
  let ?nodes = "pre @ ParameterNode name typeNode ParameterKind_REST # post"
  have index: "0 + length pre \<noteq> length ?nodes" by simp
  show ?thesis
  proof (cases "resolveSignature_parameters rec ?nodes 0 (length ?nodes) ctx reportNotFound
                  [] [] 0 False p")
    case (Inl err)
    then show ?thesis by (simp add: resolveSignature_return_def andThen_def)
  next
    case (Inr r)
    obtain x p1 where r: "r = (x, p1)" by (cases r)
    show ?thesis
    proof (cases x)
      case None
      with Inr r show ?thesis by (simp add: resolveSignature_return_def andThen_def)
    next
      case (Some y)
      with Inr r resolveSignature_parameters_rest [OF index, of rec name typeNode post ctx
          reportNotFound "[]" "[]" 0 False p y p1]
      show ?thesis by simp
    qed
  qed
qed

text \<open>
  Claim C7. A signature whose last parameter is its single rest parameter should resolve,
  with \<open>hasRest\<close> set. The loop of \<open>resolveSignature\<close> asserts \<open>i == numParameters\<close>
  at a rest parameter, and \<open>i < numParameters\<close> holds inside the loop: on a signature
  with a rest parameter at any position the function never returns a signature, and with
  the rest parameter first (so no earlier parameter ends the run) and no explicit
  \<open>this\<close> type the assertion fails, whatever the types are. The signature
  \<open>(...args: i32) => void\<close> is an instance.
\<close>

theorem resolveSignature_rest:
  "resolveSignature fuel
     (SignatureNode (pre @ ParameterNode name typeNode ParameterKind_REST # post)
        returnTypeNode explicitThisType)
     ctx reportNotFound p \<noteq> Inr (Some s, p')
   \<and> resolveSignature fuel
     (SignatureNode (ParameterNode name typeNode ParameterKind_REST # post) returnTypeNode None)
     ctx reportNotFound p = Inl AssertionFailed
   \<and> resolveSignature fuel Rest_signature None True newProgram = Inl AssertionFailed"
proof -
  let ?node = "SignatureNode (pre @ ParameterNode name typeNode ParameterKind_REST # post)
        returnTypeNode explicitThisType"
  have never: "resolveSignature fuel ?node ctx reportNotFound p \<noteq> Inr (Some s, p')"
  proof (cases explicitThisType)
    case None
    then show ?thesis
      using resolveSignature_return_rest [of "resolver fuel" pre name typeNode post returnTypeNode
          None ctx reportNotFound None p s p']
      by (simp add: resolveSignature_def resolveSignature_body_def)
  next
    case (Some thisNode)
    show ?thesis
    proof (cases "rec_resolveType (resolver fuel) thisNode ctx reportNotFound p")
      case (Inl err)
      with Some show ?thesis
        by (simp add: resolveSignature_def resolveSignature_body_def andThen_def)
    next
      case (Inr r)
      obtain t p1 where r: "r = (t, p1)" by (cases r)
      show ?thesis
      proof (cases t)
        case None
        with Some Inr r show ?thesis
          by (simp add: resolveSignature_def resolveSignature_body_def andThen_def)
      next
        case (Some t1)
        with \<open>explicitThisType = Some thisNode\<close> Inr r
          resolveSignature_return_rest [of "resolver fuel" pre name typeNode post returnTypeNode
            "Some thisNode" ctx reportNotFound "Some t1" p1 s p']
        show ?thesis
          by (simp add: resolveSignature_def resolveSignature_body_def andThen_def)
      qed
    qed
  qed
  have head: "resolveSignature fuel
     (SignatureNode (ParameterNode name typeNode ParameterKind_REST # post) returnTypeNode None)
     ctx reportNotFound p = Inl AssertionFailed" for name typeNode post returnTypeNode ctx reportNotFound p
    by (simp add: resolveSignature_def resolveSignature_body_def resolveSignature_return_def
        andThen_def)
  have "resolveSignature fuel Rest_signature None True newProgram = Inl AssertionFailed"
    unfolding Rest_signature_def by (rule head)
  with never head show ?thesis by simp
qed

subsection \<open>Arity of type arguments\<close>

text \<open>
  Claim C8, as the source has it. When the number of type argument nodes differs from the
  number of type parameters, \<open>resolveTypeArguments\<close> returns \<open>null\<close>; it emits
  \<open>Expected N type arguments but got M\<close> if at least one argument is supplied, or if none is
  and the caller gave an alternative node to report at, and it emits nothing otherwise.
\<close>

theorem resolveTypeArguments_mismatch:
  assumes "length typeParameters \<noteq> (case typeArgumentNodes of None \<Rightarrow> 0 | Some nodes \<Rightarrow> length nodes)"
  shows "resolveTypeArguments fuel typeParameters typeArgumentNodes ctx alternativeReportNode p =
     Inr (None,
       if (typeArgumentNodes \<noteq> None \<and> typeArgumentNodes \<noteq> Some []) \<or> alternativeReportNode \<noteq> None
       then error Expected_0_type_arguments_but_got_1
              [toString10 (length typeParameters),
               toString10 (case typeArgumentNodes of None \<Rightarrow> 0 | Some nodes \<Rightarrow> length nodes)] p
       else p)"
proof (cases typeArgumentNodes)
  case None
  with assms show ?thesis
    by (simp add: resolveTypeArguments_def resolveTypeArguments_body_def Let_def digit_def)
next
  case (Some nodes)
  with assms show ?thesis
    by (cases nodes)
       (simp_all add: resolveTypeArguments_def resolveTypeArguments_body_def Let_def digit_def)
qed

text \<open>The theorem for one type parameter and two arguments.\<close>

theorem resolveTypeArguments_mismatch_witness:
  "length [''T''] \<noteq> (case Some [namedType (entrySource ''a'') ''i32'', namedType (entrySource ''a'') ''i32'']
        of None \<Rightarrow> 0 | Some nodes \<Rightarrow> length nodes)
   \<and> resolveTypeArguments 1 [''T'']
        (Some [namedType (entrySource ''a'') ''i32'', namedType (entrySource ''a'') ''i32''])
        None None newProgram
      = Inr (None, error Expected_0_type_arguments_but_got_1 [''1'', ''2''] newProgram)"
  using resolveTypeArguments_mismatch
    [of "[''T'']" "Some [namedType (entrySource ''a'') ''i32'', namedType (entrySource ''a'') ''i32'']"
        1 None None newProgram]
  by (simp add: digit_def)

text \<open>
  One type parameter, no type arguments and no alternative node to report at: the call
  returns \<open>null\<close> and the program has no diagnostic.
\<close>

theorem resolveTypeArguments_silent:
  "length [''T''] \<noteq> (case (None :: CommonTypeNode list option) of None \<Rightarrow> 0 | Some nodes \<Rightarrow> length nodes)
   \<and> resolveTypeArguments 1 [''T''] None None None newProgram = Inr (None, newProgram)
   \<and> resolveTypeArguments 1 [''T''] (Some []) None None newProgram = Inr (None, newProgram)
   \<and> diagnostics newProgram = []"
  by (simp add: resolveTypeArguments_def resolveTypeArguments_body_def Let_def newProgram_def)

subsection \<open>Imports through re-exports\<close>

lemma tryResolveImport_self_link:
  assumes returns: "tryResolveImport p queuedExports referencedName = Some y"
  shows "\<not> (Map_get (fileLevelExports p) referencedName = None
            \<and> (\<exists>queuedExport. Map_get queuedExports referencedName = Some queuedExport
                  \<and> qe_isReExport queuedExport
                  \<and> qe_referencedName queuedExport = referencedName))"
proof (rule tryResolveImport.raw_induct
    [where P = "\<lambda>p queuedExports referencedName y.
        \<not> (Map_get (fileLevelExports p) referencedName = None
            \<and> (\<exists>queuedExport. Map_get queuedExports referencedName = Some queuedExport
                  \<and> qe_isReExport queuedExport
                  \<and> qe_referencedName queuedExport = referencedName))", OF _ returns])
  fix f p queuedExports referencedName y
  assume IH: "\<And>p queuedExports referencedName y. f p queuedExports referencedName = Some y \<Longrightarrow>
        \<not> (Map_get (fileLevelExports p) referencedName = None
            \<and> (\<exists>queuedExport. Map_get queuedExports referencedName = Some queuedExport
                  \<and> qe_isReExport queuedExport
                  \<and> qe_referencedName queuedExport = referencedName))"
    and eq: "(case Map_get (fileLevelExports p) referencedName of
       Some element \<Rightarrow> Some (Some element)
     | None \<Rightarrow>
        (case Map_get queuedExports referencedName of
           None \<Rightarrow> Some None
         | Some queuedExport \<Rightarrow>
            if qe_isReExport queuedExport
            then f p queuedExports (qe_referencedName queuedExport)
            else Some (Map_get (elementsLookup p) (qe_referencedName queuedExport)))) = Some y"
  show "\<not> (Map_get (fileLevelExports p) referencedName = None
            \<and> (\<exists>queuedExport. Map_get queuedExports referencedName = Some queuedExport
                  \<and> qe_isReExport queuedExport
                  \<and> qe_referencedName queuedExport = referencedName))"
  proof
    assume link: "Map_get (fileLevelExports p) referencedName = None
            \<and> (\<exists>queuedExport. Map_get queuedExports referencedName = Some queuedExport
                  \<and> qe_isReExport queuedExport
                  \<and> qe_referencedName queuedExport = referencedName)"
    then obtain queuedExport where q: "Map_get queuedExports referencedName = Some queuedExport"
      "qe_isReExport queuedExport" "qe_referencedName queuedExport = referencedName"
      by blast
    from eq link q have "f p queuedExports referencedName = Some y" by simp
    from IH [OF this] link show False by simp
  qed
qed

lemma tryResolveImport_never_returns:
  assumes "Map_get (fileLevelExports p) referencedName = None"
    and "Map_get queuedExports referencedName = Some queuedExport"
    and "qe_isReExport queuedExport"
    and "qe_referencedName queuedExport = referencedName"
  shows "tryResolveImport p queuedExports referencedName = None"
proof (cases "tryResolveImport p queuedExports referencedName")
  case None
  then show ?thesis .
next
  case (Some y)
  from tryResolveImport_self_link [OF Some] assms show ?thesis by simp
qed

lemma Cycle_queue:
  "map (\<lambda>(exportName, queuedExport).
          (exportName, qe_isReExport queuedExport, qe_referencedName queuedExport))
     Cycle_queuedExports = [(''a/a'', True, ''b/a''), (''b/a'', True, ''b/a'')]
   \<and> fileLevelExports Cycle_program = []
   \<and> diagnostics Cycle_program = []"
  by code_simp

text \<open>
  Claim C3. \<open>tryResolveImport\<close> should return for every referenced name and every map of
  queued exports. The files \<open>a.ts\<close> with \<open>export { a } from "./b"\<close> and \<open>b.ts\<close> with
  \<open>export { a } from "./a"\<close> leave a queue in which \<open>b/a\<close> is a re-export of \<open>b/a\<close>,
  and the loop of \<open>tryResolveImport\<close>, which keeps no record of the entries it has seen,
  does not return on either name.
\<close>

theorem tryResolveImport_cycle:
  "tryResolveImport Cycle_program Cycle_queuedExports ''b/a'' = None
   \<and> tryResolveImport Cycle_program Cycle_queuedExports ''a/a'' = None"
proof -
  from Cycle_queue obtain qa qb where queue: "Cycle_queuedExports = [(''a/a'', qa), (''b/a'', qb)]"
    and qa: "qe_isReExport qa" "qe_referencedName qa = ''b/a''"
    and qb: "qe_isReExport qb" "qe_referencedName qb = ''b/a''"
    by (auto simp: map_eq_Cons_conv)
  have files: "Map_get (fileLevelExports Cycle_program) n = None" for n
    using Cycle_queue by (simp add: Map_get_def)
  have a_entry: "Map_get Cycle_queuedExports ''a/a'' = Some qa"
    and b_entry: "Map_get Cycle_queuedExports ''b/a'' = Some qb"
    by (simp_all add: queue Map_get_def)
  have b: "tryResolveImport Cycle_program Cycle_queuedExports ''b/a'' = None"
    using files b_entry qb by (rule tryResolveImport_never_returns)
  have "tryResolveImport Cycle_program Cycle_queuedExports ''a/a''
      = tryResolveImport Cycle_program Cycle_queuedExports ''b/a''"
    by (subst tryResolveImport.simps) (simp add: files a_entry qa)
  with b show ?thesis by simp
qed

subsection \<open>Sealed classes\<close>



lemma elements_error [simp]: "elements (error code args p) = elements p"
  by (simp add: error_def)



lemma S4_sealed:
  "(case ClassPrototype_resolve 5 2 None None S4_program of
      Inl err \<Rightarrow> None
    | Inr (instance, p) \<Rightarrow>
       Some (instance, diagnostics p,
             map_option cp_instances (classPrototypeOf p 2),
             filter (\<lambda>h. map_option c_prototype (classOf p h) = Some 2) [0..<length (elements p)]))
   = Some (None, [DiagnosticMessage Class_0_is_sealed_and_cannot_be_extended [''a/B'']],
           Some [], [])"
  by code_simp

end
